theory Spec2Isabelle
  imports Main "HOL-Library.Sublist"
begin

section \<open>Calendar sync: from an iCal feed to cleaning jobs\<close>

text \<open>
  A shallow embedding of the calendar sync edge function
  (\<^verbatim>\<open>parseICalFromUrl\<close>, \<^verbatim>\<open>parseICalData\<close>, \<^verbatim>\<open>extractCheckouts\<close>,
  \<^verbatim>\<open>detectSameDayTurnaround\<close>, \<^verbatim>\<open>filterUpcomingCheckouts\<close>, \<^verbatim>\<open>syncProperty\<close> and the
  request handler). The client has a copy of the calendar utilities; it differs in guards
  on arguments of the wrong type, in handlers for errors these bodies do not raise, in
  an early return of the filter on the empty list, and in the wording of the parse
  error, none of which changes a value computed here.
\<close>

subsection \<open>Strings of the runtime\<close>

text \<open>
  A string is a list of characters. \<^verbatim>\<open>toLowerCase\<close> maps the letters A to Z to a to z
  and leaves every other character as it is: labels are taken to be ASCII, as is white
  space.
\<close>

definition upper_letters :: string where
  "upper_letters = ''ABCDEFGHIJKLMNOPQRSTUVWXYZ''"

definition lower_letters :: string where
  "lower_letters = ''abcdefghijklmnopqrstuvwxyz''"

definition lower_char :: "char \<Rightarrow> char" where
  "lower_char c = (case map_of (zip upper_letters lower_letters) c of Some d \<Rightarrow> d | None \<Rightarrow> c)"

definition toLowerCase :: "string \<Rightarrow> string" where
  "toLowerCase s = map lower_char s"

text \<open>\<^verbatim>\<open>s.includes(sub)\<close>: \<open>sub\<close> occurs in \<open>s\<close> at some position.\<close>

fun str_includes :: "string \<Rightarrow> string \<Rightarrow> bool" where
  "str_includes [] sub = (sub = [])"
| "str_includes (c # cs) sub = (prefix sub (c # cs) \<or> str_includes cs sub)"

subsection \<open>Dates of the runtime\<close>

text \<open>
  A \<^verbatim>\<open>Date\<close> is its time value, the milliseconds since the epoch (invalid dates are not
  modelled). The local time zone is a fixed offset \<open>tz\<close> in milliseconds east of UTC;
  the edge runtime has \<open>tz = 0\<close>.
\<close>

type_synonym Date = int

definition msPerDay :: int where
  "msPerDay = 86400000"

text \<open>\<^verbatim>\<open>d.setHours(0, 0, 0, 0)\<close>: the start of the local day of \<open>t\<close>.\<close>

definition setHoursZero :: "int \<Rightarrow> Date \<Rightarrow> Date" where
  "setHoursZero tz t = ((t + tz) div msPerDay) * msPerDay - tz"

text \<open>\<^verbatim>\<open>d.setDate(d.getDate() + n)\<close>: the same local time of day, \<open>n\<close> days later.\<close>

definition addDays :: "Date \<Rightarrow> int \<Rightarrow> Date" where
  "addDays t n = t + n * msPerDay"

text \<open>The number of the local calendar day of \<open>t\<close> (day 0 is 1 January 1970).\<close>

definition localDay :: "int \<Rightarrow> Date \<Rightarrow> int" where
  "localDay tz t = (t + tz) div msPerDay"

subsection \<open>Events and checkouts\<close>

record ICalEvent =
  uid :: string
  summary :: string
  description :: string
  start :: Date
  end' :: Date
  location :: string

record ParsedCheckout =
  date :: Date
  event :: ICalEvent
  has_same_day_checkin :: bool
  next_checkin_date :: "Date option"

text \<open>
  The blocked test, written out three times in the source (in \<^verbatim>\<open>extractCheckouts\<close>
  for the event and for the next event, and in \<^verbatim>\<open>detectSameDayTurnaround\<close>), each time
  on the lower-cased summary and in this order.
\<close>

definition isBlocked :: "string \<Rightarrow> bool" where
  "isBlocked s =
     (let summary = toLowerCase s in
        str_includes summary ''blocked'' \<or>
        str_includes summary ''unavailable'' \<or>
        str_includes summary ''not available'' \<or>
        summary = ''busy'')"

fun detectSameDayTurnaround :: "int \<Rightarrow> Date \<Rightarrow> ICalEvent list \<Rightarrow> bool" where
  "detectSameDayTurnaround tz checkoutDate [] = False"
| "detectSameDayTurnaround tz checkoutDate (e # events) =
     (if setHoursZero tz (start e) = setHoursZero tz checkoutDate
      then (if \<not> isBlocked (summary e) then True
            else detectSameDayTurnaround tz checkoutDate events)
      else detectSameDayTurnaround tz checkoutDate events)"

text \<open>The inner loop of \<^verbatim>\<open>extractCheckouts\<close>, over the events after position \<open>i\<close>.\<close>

fun nextCheckinDate :: "ICalEvent list \<Rightarrow> Date option" where
  "nextCheckinDate [] = None"
| "nextCheckinDate (nextEvent # later) =
     (if \<not> isBlocked (summary nextEvent) then Some (start nextEvent)
      else nextCheckinDate later)"

text \<open>
  The outer loop: \<open>sortedEvents\<close> is the whole sorted array, the second list is what is
  left of it from position \<open>i\<close> on.
\<close>

fun extractLoop :: "int \<Rightarrow> ICalEvent list \<Rightarrow> ICalEvent list \<Rightarrow> ParsedCheckout list" where
  "extractLoop tz sortedEvents [] = []"
| "extractLoop tz sortedEvents (e # later) =
     (if isBlocked (summary e) then extractLoop tz sortedEvents later
      else \<lparr>date = end' e, event = e,
            has_same_day_checkin = detectSameDayTurnaround tz (end' e) sortedEvents,
            next_checkin_date = nextCheckinDate later\<rparr>
           # extractLoop tz sortedEvents later)"

text \<open>\<^verbatim>\<open>Array.prototype.sort\<close> is stable, as \<^const>\<open>sort_key\<close> is.\<close>

definition extractCheckouts :: "int \<Rightarrow> ICalEvent list \<Rightarrow> ParsedCheckout list" where
  "extractCheckouts tz events =
     (if events = [] then []
      else let sortedEvents = sort_key end' events
           in extractLoop tz sortedEvents sortedEvents)"

definition filterUpcomingCheckouts ::
  "int \<Rightarrow> Date \<Rightarrow> ParsedCheckout list \<Rightarrow> int option \<Rightarrow> ParsedCheckout list" where
  "filterUpcomingCheckouts tz clock checkouts days_arg =
     (let days = (case days_arg of None \<Rightarrow> 30 | Some d \<Rightarrow> d);
          now = setHoursZero tz clock;
          futureDate = addDays now days
      in filter (\<lambda>checkout.
                   let checkoutDay = setHoursZero tz (date checkout)
                   in checkoutDay \<ge> now \<and> checkoutDay \<le> futureDate) checkouts)"

subsection \<open>Printing numbers and dates\<close>

definition digit_char :: "nat \<Rightarrow> char" where
  "digit_char n = ''0123456789'' ! n"

text \<open>The decimal digits of a number, as a template literal prints it.\<close>

fun digits :: "nat \<Rightarrow> string" where
  "digits n = (if n < 10 then [digit_char n] else digits (n div 10) @ [digit_char (n mod 10)])"

declare digits.simps [simp del]

text \<open>\<^verbatim>\<open>String(n).padStart(w, '0')\<close>.\<close>

definition pad :: "nat \<Rightarrow> nat \<Rightarrow> string" where
  "pad w n = replicate (w - length (digits n)) (CHR ''0'') @ digits n"

text \<open>
  The year, month and day of the day number \<open>z\<close> (days since 1 January 1970) in the
  proleptic Gregorian calendar, by counting eras of 400 years from 1 March 0000.
\<close>

definition civil_from_days :: "int \<Rightarrow> int \<times> nat \<times> nat" where
  "civil_from_days z =
     (let z' = z + 719468;
          era = z' div 146097;
          doe = z' - era * 146097;
          yoe = (doe - doe div 1460 + doe div 36524 - doe div 146096) div 365;
          doy = doe - (365 * yoe + yoe div 4 - yoe div 100);
          mp = (5 * doy + 2) div 153;
          d = doy - (153 * mp + 2) div 5 + 1;
          m = (if mp < 10 then mp + 3 else mp - 9);
          y = yoe + era * 400 + (if m \<le> 2 then 1 else 0)
      in (y, nat m, nat d))"

text \<open>Years 0 to 9999 print with four digits, the others with a sign and six.\<close>

definition year_string :: "int \<Rightarrow> string" where
  "year_string y =
     (if 0 \<le> y \<and> y \<le> 9999 then pad 4 (nat y)
      else (if y < 0 then ''-'' else ''+'') @ pad 6 (nat \<bar>y\<bar>))"

definition date_string :: "int \<Rightarrow> string" where
  "date_string z =
     (case civil_from_days z of (y, m, d) \<Rightarrow> year_string y @ ''-'' @ pad 2 m @ ''-'' @ pad 2 d)"

definition time_string :: "int \<Rightarrow> string" where
  "time_string ms =
     pad 2 (nat (ms div 3600000)) @ '':'' @ pad 2 (nat (ms div 60000 mod 60)) @ '':'' @
     pad 2 (nat (ms div 1000 mod 60)) @ ''.'' @ pad 3 (nat (ms mod 1000))"

text \<open>\<^verbatim>\<open>d.toISOString()\<close>: the UTC date and time of day, \<open>YYYY-MM-DDTHH:mm:ss.sssZ\<close>.\<close>

definition toISOString :: "Date \<Rightarrow> string" where
  "toISOString t = date_string (t div msPerDay) @ ''T'' @ time_string (t mod msPerDay) @ ''Z''"

text \<open>\<^verbatim>\<open>s.split('T')[0]\<close>: what stands before the first \<open>T\<close>.\<close>

definition split_T_first :: "string \<Rightarrow> string" where
  "split_T_first s = takeWhile (\<lambda>c. c \<noteq> CHR ''T'') s"

text \<open>The number of the UTC calendar day of \<open>t\<close>.\<close>

definition utcDay :: "Date \<Rightarrow> int" where
  "utcDay t = t div msPerDay"

subsection \<open>The calendar parser\<close>

text \<open>
  The iCal library is not part of the repository. What the parser reads of it is a
  parameter: \<open>ICAL_parse\<close> gives the \<^verbatim>\<open>vevent\<close> sub-components of a calendar text, or
  nothing when \<^verbatim>\<open>ICAL.parse\<close> or the component constructor throws. A sub-component is
  the properties that \<^verbatim>\<open>ICAL.Event\<close> shows, dates already as time values, or
  \<open>Unreadable\<close> when reading it throws.
\<close>

record VEvent =
  v_uid :: "string option"
  v_summary :: "string option"
  v_description :: "string option"
  v_location :: "string option"
  v_startDate :: "Date option"
  v_endDate :: "Date option"

datatype vevent = Unreadable | Readable VEvent

text \<open>\<^verbatim>\<open>x || d\<close> on a string that may be missing: the empty string is falsy too.\<close>

definition or_default :: "string option \<Rightarrow> string \<Rightarrow> string" where
  "or_default x d = (case x of None \<Rightarrow> d | Some s \<Rightarrow> if s = [] then d else s)"

fun parseEvents :: "vevent list \<Rightarrow> ICalEvent list" where
  "parseEvents [] = []"
| "parseEvents (Unreadable # vevents) = parseEvents vevents"
| "parseEvents (Readable v # vevents) =
     (case v_startDate v of
        None \<Rightarrow> parseEvents vevents
      | Some startDate \<Rightarrow>
          \<lparr>uid = or_default (v_uid v) '''',
           summary = or_default (v_summary v) ''Untitled Event'',
           description = or_default (v_description v) '''',
           start = startDate,
           end' = (case v_endDate v of Some endDate \<Rightarrow> endDate | None \<Rightarrow> startDate),
           location = or_default (v_location v) ''''\<rparr>
          # parseEvents vevents)"

text \<open>An error is its message.\<close>

definition parseICalData ::
  "(string \<Rightarrow> vevent list option) \<Rightarrow> string \<Rightarrow> string + ICalEvent list" where
  "parseICalData ICAL_parse icalData =
     (case ICAL_parse icalData of
        None \<Rightarrow> Inl ''Failed to parse iCal data''
      | Some vevents \<Rightarrow> Inr (parseEvents vevents))"

subsection \<open>The calendar fetcher\<close>

text \<open>
  The network is a parameter too: \<open>fetch\<close> gives, for a URL, the response or the
  message of the error that \<^verbatim>\<open>fetch\<close> or \<^verbatim>\<open>response.text()\<close> throws.
\<close>

datatype fetch_outcome =
  Rejected string
  | Response nat string string

definition response_ok :: "nat \<Rightarrow> bool" where
  "response_ok st = (200 \<le> st \<and> st \<le> 299)"

definition is_space :: "char \<Rightarrow> bool" where
  "is_space c = (c \<in> set [CHR 0x09, CHR 0x0A, CHR 0x0B, CHR 0x0C, CHR 0x0D, CHR 0x20])"

definition trim :: "string \<Rightarrow> string" where
  "trim s = rev (dropWhile is_space (rev (dropWhile is_space s)))"

text \<open>\<^verbatim>\<open>url.replace(/^webcal:\/\//i, 'https://')\<close>.\<close>

definition webcal_to_https :: "string \<Rightarrow> string" where
  "webcal_to_https url =
     (if toLowerCase (take 9 url) = ''webcal://'' then ''https://'' @ drop 9 url else url)"

record runtime =
  fetch :: "string \<Rightarrow> fetch_outcome"
  ICAL_parse :: "string \<Rightarrow> vevent list option"
  time_now :: Date
  utc_offset :: int

definition parseICalFromUrl :: "runtime \<Rightarrow> string \<Rightarrow> string + ICalEvent list" where
  "parseICalFromUrl rt url =
     (let fetchUrl = webcal_to_https url in
      case fetch rt fetchUrl of
        Rejected msg \<Rightarrow> Inl msg
      | Response st txt icalData \<Rightarrow>
          if \<not> response_ok st
          then Inl (''Failed to fetch iCal: '' @ digits st @ '' '' @ txt)
          else if icalData = [] \<or> length (trim icalData) = 0
          then Inl ''iCal data is empty''
          else parseICalData (ICAL_parse rt) icalData)"

subsection \<open>The database\<close>

record Property =
  id' :: string
  user_id :: string
  name :: string
  ical_url :: string
  last_synced :: "string option"
  sync_error :: "string option"
  active :: bool

record PropertyCleaner =
  pc_property_id :: string
  cleaner_id :: string
  is_primary :: bool

record CleaningJob =
  job_property_id :: string
  job_cleaner_id :: "string option"
  checkout_date :: string
  checkin_date :: "string option"
  status :: string
  is_same_day_turnaround :: bool

text \<open>
  The three tables the sync reads and writes. A call returns \<^verbatim>\<open>{ data, error }\<close>, and
  whether it fails is not decided by the code: \<open>failures\<close> holds, for the calls to come
  whose \<^verbatim>\<open>error\<close> the code reads, the message of the error or \<open>None\<close>, in the order of
  the calls; once the list is used up, calls succeed. A column compared with \<^verbatim>\<open>eq\<close> is
  compared with the value that was written to it. The two updates of \<^verbatim>\<open>properties\<close>
  are taken as applied: the code does not look at what they return.
\<close>

record database =
  properties :: "Property list"
  property_cleaners :: "PropertyCleaner list"
  cleaning_jobs :: "CleaningJob list"
  failures :: "string option list"

definition next_outcome :: "database \<Rightarrow> string option \<times> database" where
  "next_outcome db =
     (case failures db of [] \<Rightarrow> (None, db) | f # fs \<Rightarrow> (f, db\<lparr>failures := fs\<rparr>))"

definition select_active_properties :: "database \<Rightarrow> (string + Property list) \<times> database" where
  "select_active_properties db =
     (case next_outcome db of
        (Some msg, db') \<Rightarrow> (Inl msg, db')
      | (None, db') \<Rightarrow> (Inr (filter active (properties db')), db'))"

text \<open>The cleaners of a property, primary first.\<close>

definition select_property_cleaners ::
  "database \<Rightarrow> string \<Rightarrow> (string + PropertyCleaner list) \<times> database" where
  "select_property_cleaners db pid =
     (case next_outcome db of
        (Some msg, db') \<Rightarrow> (Inl msg, db')
      | (None, db') \<Rightarrow>
          (Inr (sort_key (\<lambda>pc. \<not> is_primary pc)
                  (filter (\<lambda>pc. pc_property_id pc = pid) (property_cleaners db'))), db'))"

definition select_cleaning_jobs ::
  "database \<Rightarrow> string \<Rightarrow> string \<Rightarrow> (string + CleaningJob list) \<times> database" where
  "select_cleaning_jobs db pid checkoutDateStr =
     (case next_outcome db of
        (Some msg, db') \<Rightarrow> (Inl msg, db')
      | (None, db') \<Rightarrow>
          (Inr (filter (\<lambda>j. job_property_id j = pid \<and> checkout_date j = checkoutDateStr)
                  (cleaning_jobs db')), db'))"

definition insert_cleaning_job :: "database \<Rightarrow> CleaningJob \<Rightarrow> string option \<times> database" where
  "insert_cleaning_job db job =
     (case next_outcome db of
        (Some msg, db') \<Rightarrow> (Some msg, db')
      | (None, db') \<Rightarrow> (None, db'\<lparr>cleaning_jobs := cleaning_jobs db' @ [job]\<rparr>))"

definition update_property :: "database \<Rightarrow> string \<Rightarrow> (Property \<Rightarrow> Property) \<Rightarrow> database" where
  "update_property db pid change =
     db\<lparr>properties := map (\<lambda>p. if id' p = pid then change p else p) (properties db)\<rparr>"

subsection \<open>Syncing one property\<close>

record SyncResult =
  property_id :: string
  property_name :: string
  success :: bool
  jobs_created :: nat
  error :: "string option"

text \<open>
  \<^verbatim>\<open>primaryCleaner?.cleaner_id || propertyCleaners?.[0]?.cleaner_id || null\<close>: an empty
  identifier is falsy.
\<close>

definition truthy :: "string \<Rightarrow> string option" where
  "truthy s = (if s = [] then None else Some s)"

definition assignedCleanerId :: "PropertyCleaner list \<Rightarrow> string option" where
  "assignedCleanerId propertyCleaners =
     (case (case find is_primary propertyCleaners of
              Some primaryCleaner \<Rightarrow> truthy (cleaner_id primaryCleaner)
            | None \<Rightarrow> None) of
        Some c \<Rightarrow> Some c
      | None \<Rightarrow>
          (case propertyCleaners of [] \<Rightarrow> None | first # _ \<Rightarrow> truthy (cleaner_id first)))"

text \<open>
  The loop over the upcoming checkouts; the number is \<^verbatim>\<open>result.jobs_created\<close>. Each of
  the three \<^verbatim>\<open>continue\<close> statements goes on with the next checkout.
\<close>

fun processCheckouts ::
  "string \<Rightarrow> string option \<Rightarrow> ParsedCheckout list \<Rightarrow> database \<times> nat \<Rightarrow> database \<times> nat" where
  "processCheckouts pid cleaner [] (db, n) = (db, n)"
| "processCheckouts pid cleaner (checkout # rest) (db, n) =
     (let checkoutDateStr = split_T_first (toISOString (date checkout));
          checkinDateStr =
            (case next_checkin_date checkout of
               Some d \<Rightarrow> Some (split_T_first (toISOString d))
             | None \<Rightarrow> None)
      in case select_cleaning_jobs db pid checkoutDateStr of
           (Inl checkError, db1) \<Rightarrow> processCheckouts pid cleaner rest (db1, n)
         | (Inr existingJobs, db1) \<Rightarrow>
             if length existingJobs > 0 then processCheckouts pid cleaner rest (db1, n)
             else (case insert_cleaning_job db1
                           \<lparr>job_property_id = pid, job_cleaner_id = cleaner,
                            checkout_date = checkoutDateStr, checkin_date = checkinDateStr,
                            status = ''pending'',
                            is_same_day_turnaround = has_same_day_checkin checkout\<rparr> of
                     (Some insertError, db2) \<Rightarrow> processCheckouts pid cleaner rest (db2, n)
                   | (None, db2) \<Rightarrow> processCheckouts pid cleaner rest (db2, n + 1)))"

text \<open>The \<^verbatim>\<open>catch\<close> block: the message is recorded in the result and in the row.\<close>

definition sync_failed :: "Property \<Rightarrow> string \<Rightarrow> database \<Rightarrow> SyncResult \<times> database" where
  "sync_failed property msg db =
     (let message = or_default (Some msg) ''Unknown error''
      in (\<lparr>property_id = id' property, property_name = name property, success = False,
           jobs_created = 0, error = Some message\<rparr>,
          update_property db (id' property) (\<lambda>p. p\<lparr>sync_error := Some message\<rparr>)))"

definition syncProperty :: "runtime \<Rightarrow> Property \<Rightarrow> database \<Rightarrow> SyncResult \<times> database" where
  "syncProperty rt property db =
     (case parseICalFromUrl rt (ical_url property) of
        Inl msg \<Rightarrow> sync_failed property msg db
      | Inr events \<Rightarrow>
          (let checkouts = extractCheckouts (utc_offset rt) events;
               upcomingCheckouts =
                 filterUpcomingCheckouts (utc_offset rt) (time_now rt) checkouts (Some 30)
           in (case select_property_cleaners db (id' property) of
                 (Inl cleanerError, db1) \<Rightarrow>
                   sync_failed property (''Failed to fetch cleaners: '' @ cleanerError) db1
               | (Inr propertyCleaners, db1) \<Rightarrow>
                   (case processCheckouts (id' property) (assignedCleanerId propertyCleaners)
                           upcomingCheckouts (db1, 0) of
                      (db2, n) \<Rightarrow>
                        (\<lparr>property_id = id' property, property_name = name property,
                          success = True, jobs_created = n, error = None\<rparr>,
                         update_property db2 (id' property)
                           (\<lambda>p. p\<lparr>last_synced := Some (toISOString (time_now rt)),
                                   sync_error := None\<rparr>))))))"

subsection \<open>The request handler\<close>

record SyncSummary =
  message :: string
  synced :: nat
  errors :: nat
  total_jobs_created :: nat
  details :: "SyncResult list option"

datatype http_response = jsonResponse SyncSummary | errorResponse string nat

fun syncEach :: "runtime \<Rightarrow> Property list \<Rightarrow> database \<Rightarrow> SyncResult list \<times> database" where
  "syncEach rt [] db = ([], db)"
| "syncEach rt (property # rest) db =
     (case syncProperty rt property db of
        (result, db1) \<Rightarrow>
          (case syncEach rt rest db1 of (results, db2) \<Rightarrow> (result # results, db2)))"

text \<open>
  The handler from the query for the active properties on (the CORS answer and the check
  of the configuration come before it). The field \<open>total_jobs_created\<close> is the key
  \<^verbatim>\<open>jobs_created\<close> of the answer; the answer for no property has no \<^verbatim>\<open>details\<close>.
\<close>

definition serve :: "runtime \<Rightarrow> database \<Rightarrow> http_response \<times> database" where
  "serve rt db =
     (case select_active_properties db of
        (Inl propertiesError, db1) \<Rightarrow>
          (errorResponse (''Failed to fetch properties: '' @ propertiesError) 500, db1)
      | (Inr props, db1) \<Rightarrow>
          if props = []
          then (jsonResponse \<lparr>message = ''No active properties to sync'', synced = 0,
                               errors = 0, total_jobs_created = 0, details = None\<rparr>, db1)
          else (case syncEach rt props db1 of
                  (results, db2) \<Rightarrow>
                    (jsonResponse
                       \<lparr>message = ''Calendar sync completed'',
                        synced = length (filter (\<lambda>r. success r) results),
                        errors = length (filter (\<lambda>r. \<not> success r) results),
                        total_jobs_created = foldl (\<lambda>sum r. sum + jobs_created r) 0 results,
                        details = Some results\<rparr>, db2)))"

subsection \<open>Notions used to state and prove the properties\<close>

text \<open>The position, among the checkouts, of the checkout of the event at position \<open>i\<close>.\<close>

definition checkoutIndex :: "ICalEvent list \<Rightarrow> nat \<Rightarrow> nat" where
  "checkoutIndex sortedEvents i =
     length (filter (\<lambda>e. \<not> isBlocked (summary e)) (take i sortedEvents))"

text \<open>
  The key of a checkout in the job table, the test that a job with a key exists, and the
  row a checkout is inserted as.
\<close>

definition checkoutKey :: "ParsedCheckout \<Rightarrow> string" where
  "checkoutKey c = split_T_first (toISOString (date c))"

definition has_job :: "database \<Rightarrow> string \<Rightarrow> string \<Rightarrow> bool" where
  "has_job db pid k = (\<exists>j\<in>set (cleaning_jobs db). job_property_id j = pid \<and> checkout_date j = k)"

definition jobFor :: "string \<Rightarrow> string option \<Rightarrow> ParsedCheckout \<Rightarrow> CleaningJob" where
  "jobFor pid cleaner c =
     \<lparr>job_property_id = pid, job_cleaner_id = cleaner,
      checkout_date = split_T_first (toISOString (date c)),
      checkin_date = (case next_checkin_date c of
               Some d \<Rightarrow> Some (split_T_first (toISOString d))
             | None \<Rightarrow> None),
      status = ''pending'',
      is_same_day_turnaround = has_same_day_checkin c\<rparr>"

text \<open>
  One pass of the loop body, told by the outcomes the database has in store; the loop is
  shown below to be this step, repeated.
\<close>

definition checkoutStep ::
  "string \<Rightarrow> string option \<Rightarrow> ParsedCheckout \<Rightarrow> database \<times> nat \<Rightarrow> database \<times> nat" where
  "checkoutStep pid cleaner c s =
     (case s of (db, n) \<Rightarrow>
        (case failures db of
           [] \<Rightarrow> if has_job db pid (checkoutKey c) then (db, n)
                 else (db\<lparr>cleaning_jobs := cleaning_jobs db @ [jobFor pid cleaner c]\<rparr>, n + 1)
         | Some e # fs \<Rightarrow> (db\<lparr>failures := fs\<rparr>, n)
         | None # fs \<Rightarrow>
             if has_job db pid (checkoutKey c) then (db\<lparr>failures := fs\<rparr>, n)
             else (case fs of
                     [] \<Rightarrow> (db\<lparr>failures := [],
                               cleaning_jobs := cleaning_jobs db @ [jobFor pid cleaner c]\<rparr>, n + 1)
                   | Some e # fs' \<Rightarrow> (db\<lparr>failures := fs'\<rparr>, n)
                   | None # fs' \<Rightarrow>
                       (db\<lparr>failures := fs',
                          cleaning_jobs := cleaning_jobs db @ [jobFor pid cleaner c]\<rparr>, n + 1))))"

text \<open>
  The checkouts the loop of \<^verbatim>\<open>syncProperty\<close> runs over, the cleaners its query returns, and
  what the update at its end does to a row of \<^verbatim>\<open>properties\<close>.
\<close>

definition upcomingCheckouts :: "runtime \<Rightarrow> ICalEvent list \<Rightarrow> ParsedCheckout list" where
  "upcomingCheckouts rt events =
     filterUpcomingCheckouts (utc_offset rt) (time_now rt)
       (extractCheckouts (utc_offset rt) events) (Some 30)"

definition propertyCleanersOf :: "database \<Rightarrow> string \<Rightarrow> PropertyCleaner list" where
  "propertyCleanersOf db pid =
     sort_key (\<lambda>pc. \<not> is_primary pc) (filter (\<lambda>pc. pc_property_id pc = pid) (property_cleaners db))"

definition markProperty :: "runtime \<Rightarrow> Property \<Rightarrow> SyncResult \<Rightarrow> Property \<Rightarrow> Property" where
  "markProperty rt p r row =
     (if id' row = id' p
      then (if success r
            then row\<lparr>last_synced := Some (toISOString (time_now rt)), sync_error := None\<rparr>
            else row\<lparr>sync_error := error r\<rparr>)
      else row)"

subsection \<open>Example data\<close>

text \<open>
  Two bookings of January 2024 (UTC): A from the 10th 14:00 to the 12th 11:00, B from the
  12th 15:00 to the 15th 11:00, and a blocked range between them on the 12th.
\<close>

definition booking_A :: ICalEvent where
  "booking_A = \<lparr>uid = ''a@feed'', summary = ''Booking A'', description = '''',
                 start = 1704895200000, end' = 1705057200000, location = ''''\<rparr>"

definition booking_B :: ICalEvent where
  "booking_B = \<lparr>uid = ''b@feed'', summary = ''Booking B'', description = '''',
                 start = 1705071600000, end' = 1705316400000, location = ''''\<rparr>"

definition blocked_range :: ICalEvent where
  "blocked_range = \<lparr>uid = ''x@feed'', summary = ''Blocked'', description = '''',
                 start = 1705057200000, end' = 1705071600000, location = ''''\<rparr>"

text \<open>Booking B moved to start on the 13th at 15:00, and a booking within the 20th.\<close>

definition booking_B_late :: ICalEvent where
  "booking_B_late = \<lparr>uid = ''b@feed'', summary = ''Booking B'', description = '''',
                 start = 1705158000000, end' = 1705316400000, location = ''''\<rparr>"

definition single_day :: ICalEvent where
  "single_day = \<lparr>uid = ''d@feed'', summary = ''Day use'', description = '''',
                 start = 1705744800000, end' = 1705773600000, location = ''''\<rparr>"

text \<open>A checkout of a two-night stay that ends at \<open>t\<close>.\<close>

definition checkout_on :: "Date \<Rightarrow> ParsedCheckout" where
  "checkout_on t = \<lparr>date = t, event = \<lparr>uid = '''', summary = ''Guest'', description = '''',
                      start = t - 2 * msPerDay, end' = t, location = ''''\<rparr>,
                    has_same_day_checkin = False, next_checkin_date = None\<rparr>"

text \<open>
  A feed of two entries: one that cannot be read, and one with no summary, from
  12 January 2024 11:00 to 14 January 11:00.
\<close>

definition unlabelled_entry :: VEvent where
  "unlabelled_entry = \<lparr>v_uid = Some ''u@feed'', v_summary = None, v_description = None,
      v_location = None, v_startDate = Some 1705057200000, v_endDate = Some 1705230000000\<rparr>"

definition small_feed :: "string \<Rightarrow> vevent list option" where
  "small_feed text =
     (if text = ''BEGIN:VCALENDAR...'' then Some [Unreadable, Readable unlabelled_entry] else None)"

text \<open>
  Three active properties. The feed of the first has bookings A and B and the blocked
  range, the feed of the second answers with status 500, the feed of the third has the
  booking within the 20th. The clock reads 5 January 2024 09:30 UTC. The first property
  has two cleaners, the second of them primary; no job exists yet.
\<close>

definition vevent_of :: "ICalEvent \<Rightarrow> vevent" where
  "vevent_of e = Readable \<lparr>v_uid = Some (uid e), v_summary = Some (summary e),
     v_description = None, v_location = None,
     v_startDate = Some (start e), v_endDate = Some (end' e)\<rparr>"

definition property_1 :: Property where
  "property_1 = \<lparr>id' = ''p1'', user_id = ''u1'', name = ''Beach House'',
     ical_url = ''webcal://feeds.example/1.ics'', last_synced = None,
     sync_error = Some ''Failed to parse iCal data'', active = True\<rparr>"

definition property_2 :: Property where
  "property_2 = \<lparr>id' = ''p2'', user_id = ''u1'', name = ''City Loft'',
     ical_url = ''https://feeds.example/2.ics'',
     last_synced = Some ''2024-01-04T03:00:00.000Z'', sync_error = None, active = True\<rparr>"

definition property_3 :: Property where
  "property_3 = \<lparr>id' = ''p3'', user_id = ''u2'', name = ''Cabin'',
     ical_url = ''https://feeds.example/3.ics'', last_synced = None,
     sync_error = None, active = True\<rparr>"

definition example_runtime :: runtime where
  "example_runtime =
     \<lparr>fetch = (\<lambda>url.
         if url = ''https://feeds.example/1.ics'' then Response 200 ''OK'' ''feed one''
         else if url = ''https://feeds.example/2.ics''
         then Response 500 ''Internal Server Error'' ''''
         else if url = ''https://feeds.example/3.ics'' then Response 200 ''OK'' ''feed three''
         else Rejected ''error sending request''),
       ICAL_parse = (\<lambda>text.
         if text = ''feed one''
         then Some [vevent_of booking_B, vevent_of blocked_range, vevent_of booking_A]
         else if text = ''feed three'' then Some [vevent_of single_day]
         else None),
       time_now = 1704447000000,
       utc_offset = 0\<rparr>"

definition example_database :: database where
  "example_database =
     \<lparr>properties = [property_1, property_2, property_3],
       property_cleaners =
         [\<lparr>pc_property_id = ''p1'', cleaner_id = ''c7'', is_primary = False\<rparr>,
          \<lparr>pc_property_id = ''p1'', cleaner_id = ''c9'', is_primary = True\<rparr>],
       cleaning_jobs = [],
       failures = []\<rparr>"



section \<open>The checkout extractor\<close>

lemma str_includes_sublist: "str_includes s sub = sublist sub s"
  by (induction s) (auto simp: sublist_Cons_right)

lemma isBlocked_iff:
  "isBlocked s \<longleftrightarrow>
     toLowerCase s = ''busy'' \<or> sublist ''blocked'' (toLowerCase s) \<or>
     sublist ''unavailable'' (toLowerCase s) \<or> sublist ''not available'' (toLowerCase s)"
  unfolding isBlocked_def Let_def str_includes_sublist by blast

lemma extractLoop_events:
  "map event (extractLoop tz sortedEvents xs) = filter (\<lambda>e. \<not> isBlocked (summary e)) xs"
  by (induction xs) auto

lemma extractLoop_fields:
  "c \<in> set (extractLoop tz sortedEvents xs) \<Longrightarrow>
     date c = end' (event c) \<and>
     has_same_day_checkin c = detectSameDayTurnaround tz (date c) sortedEvents"
  by (induction xs) (auto split: if_splits)

lemma setHoursZero_eq_iff:
  "setHoursZero tz a = setHoursZero tz b \<longleftrightarrow> localDay tz a = localDay tz b"
  by (simp add: setHoursZero_def localDay_def msPerDay_def)

lemma setHoursZero_le_iff:
  "setHoursZero tz a \<le> setHoursZero tz b \<longleftrightarrow> localDay tz a \<le> localDay tz b"
  by (simp add: setHoursZero_def localDay_def msPerDay_def)

lemma setHoursZero_le_addDays_iff:
  "setHoursZero tz a \<le> addDays (setHoursZero tz b) n \<longleftrightarrow> localDay tz a \<le> localDay tz b + n"
proof -
  have "addDays (setHoursZero tz b) n = (localDay tz b + n) * msPerDay - tz"
    by (simp add: addDays_def setHoursZero_def localDay_def algebra_simps)
  moreover have "localDay tz a * msPerDay \<le> (localDay tz b + n) * msPerDay \<longleftrightarrow>
      localDay tz a \<le> localDay tz b + n"
    unfolding mult_le_cancel_right by (simp add: msPerDay_def)
  ultimately show ?thesis
    by (simp add: setHoursZero_def localDay_def)
qed

lemma detectSameDayTurnaround_iff:
  "detectSameDayTurnaround tz d es \<longleftrightarrow>
     (\<exists>e\<in>set es. \<not> isBlocked (summary e) \<and> setHoursZero tz (start e) = setHoursZero tz d)"
  by (induction es) auto

lemma nextCheckinDate_None_iff:
  "nextCheckinDate xs = None \<longleftrightarrow> (\<forall>j<length xs. isBlocked (summary (xs ! j)))"
  by (induction xs) (auto simp: less_Suc_eq_0_disj)

lemma nextCheckinDate_first:
  "j < length xs \<Longrightarrow> \<not> isBlocked (summary (xs ! j)) \<Longrightarrow>
   \<forall>k<j. isBlocked (summary (xs ! k)) \<Longrightarrow> nextCheckinDate xs = Some (start (xs ! j))"
proof (induction xs arbitrary: j)
  case Nil
  then show ?case by simp
next
  case (Cons x xs)
  show ?case
  proof (cases j)
    case 0
    with Cons.prems show ?thesis by simp
  next
    case (Suc j')
    with Cons.prems have "isBlocked (summary x)" by auto
    moreover have "nextCheckinDate xs = Some (start (xs ! j'))"
      using Cons.prems Suc by (intro Cons.IH) auto
    ultimately show ?thesis using Suc by simp
  qed
qed

lemma extractLoop_nth:
  "i < length xs \<Longrightarrow> \<not> isBlocked (summary (xs ! i)) \<Longrightarrow>
   extractLoop tz sortedEvents xs ! length (filter (\<lambda>e. \<not> isBlocked (summary e)) (take i xs)) =
     \<lparr>date = end' (xs ! i), event = xs ! i,
      has_same_day_checkin = detectSameDayTurnaround tz (end' (xs ! i)) sortedEvents,
      next_checkin_date = nextCheckinDate (drop (Suc i) xs)\<rparr>"
proof (induction xs arbitrary: i)
  case Nil
  then show ?case by simp
next
  case (Cons x xs)
  show ?case
  proof (cases i)
    case 0
    with Cons.prems show ?thesis by simp
  next
    case (Suc i')
    with Cons.prems Cons.IH[of i'] show ?thesis by simp
  qed
qed

lemma count_events:
  "length (filter (\<lambda>c. event c = e) (extractLoop tz all xs)) =
     (if isBlocked (summary e) then 0 else length (filter (\<lambda>x. x = e) xs))"
proof -
  have "length (filter (\<lambda>c. event c = e) (extractLoop tz all xs)) =
        length (filter (\<lambda>x. x = e) (map event (extractLoop tz all xs)))"
    by (simp add: filter_map comp_def)
  also have "\<dots> = length (filter (\<lambda>x. x = e \<and> \<not> isBlocked (summary x)) xs)"
    by (simp add: extractLoop_events conj_commute)
  also have "\<dots> = (if isBlocked (summary e) then 0 else length (filter (\<lambda>x. x = e) xs))"
    by (auto intro!: arg_cong[where f = length] filter_cong)
  finally show ?thesis .
qed

lemma extractCheckouts_events:
  "map event (extractCheckouts tz events) =
     filter (\<lambda>e. \<not> isBlocked (summary e)) (sort_key end' events)"
  by (simp add: extractCheckouts_def Let_def extractLoop_events)

lemma extractCheckouts_fields:
  assumes "c \<in> set (extractCheckouts tz events)"
  shows "date c = end' (event c)"
    and "has_same_day_checkin c = detectSameDayTurnaround tz (date c) (sort_key end' events)"
    and "event c \<in> set events" and "\<not> isBlocked (summary (event c))"
proof -
  from assms have mem: "c \<in> set (extractLoop tz (sort_key end' events) (sort_key end' events))"
    by (auto simp: extractCheckouts_def Let_def split: if_splits)
  from extractLoop_fields[OF mem] show "date c = end' (event c)"
    and "has_same_day_checkin c = detectSameDayTurnaround tz (date c) (sort_key end' events)"
    by auto
  from assms have "event c \<in> set (map event (extractCheckouts tz events))" by simp
  then show "event c \<in> set events" and "\<not> isBlocked (summary (event c))"
    by (auto simp: extractCheckouts_events)
qed

text \<open>
  Claim C3 (blocked exclusion). An event whose summary is blocked gives no checkout,
  whatever its dates; an event that is not blocked gives one checkout for each time it
  occurs in the input, and every checkout comes from an input event that is not blocked
  and has that event's end as its date. Blocked means: the lower-cased summary is
  \<open>busy\<close>, or one of \<open>blocked\<close>, \<open>unavailable\<close>, \<open>not available\<close> occurs in it.
\<close>

theorem blocked_exclusion:
  "(\<forall>e\<in>set events.
      length (filter (\<lambda>c. event c = e) (extractCheckouts tz events)) =
        (if isBlocked (summary e) then 0 else length (filter (\<lambda>x. x = e) events)))
   \<and> (\<forall>c\<in>set (extractCheckouts tz events).
        event c \<in> set events \<and> \<not> isBlocked (summary (event c)) \<and> date c = end' (event c))
   \<and> (isBlocked s \<longleftrightarrow>
        toLowerCase s = ''busy'' \<or> sublist ''blocked'' (toLowerCase s) \<or>
        sublist ''unavailable'' (toLowerCase s) \<or> sublist ''not available'' (toLowerCase s))"
proof (intro conjI ballI)
  fix e assume "e \<in> set events"
  then have ne: "events \<noteq> []" by auto
  have "length (filter (\<lambda>x. x = e) (sort_key end' events)) = length (filter (\<lambda>x. x = e) events)"
    by (simp add: filter_sort)
  with ne show "length (filter (\<lambda>c. event c = e) (extractCheckouts tz events)) =
        (if isBlocked (summary e) then 0 else length (filter (\<lambda>x. x = e) events))"
    by (simp add: extractCheckouts_def Let_def count_events)
next
  fix c assume "c \<in> set (extractCheckouts tz events)"
  from extractCheckouts_fields[OF this]
  show "event c \<in> set events" and "\<not> isBlocked (summary (event c))" and "date c = end' (event c)"
    by auto
next
  show "isBlocked s \<longleftrightarrow>
        toLowerCase s = ''busy'' \<or> sublist ''blocked'' (toLowerCase s) \<or>
        sublist ''unavailable'' (toLowerCase s) \<or> sublist ''not available'' (toLowerCase s)"
    by (rule isBlocked_iff)
qed

theorem blocked_exclusion_witness:
  "blocked_range \<in> set [booking_B, blocked_range, booking_A] \<and>
   isBlocked (summary blocked_range) \<and>
   length (filter (\<lambda>c. event c = blocked_range)
             (extractCheckouts 0 [booking_B, blocked_range, booking_A])) = 0 \<and>
   booking_A \<in> set [booking_B, blocked_range, booking_A] \<and>
   \<not> isBlocked (summary booking_A) \<and>
   length (filter (\<lambda>c. event c = booking_A)
             (extractCheckouts 0 [booking_B, blocked_range, booking_A])) = 1 \<and>
   extractCheckouts 0 [booking_B, blocked_range, booking_A] \<noteq> [] \<and>
   date (hd (extractCheckouts 0 [booking_B, blocked_range, booking_A])) = end' booking_A"
  using blocked_exclusion[of "[booking_B, blocked_range, booking_A]" 0 "''Blocked''"]
  by code_simp

text \<open>
  Claim C4 (same-day check-in). A checkout has \<open>has_same_day_checkin\<close> exactly when some
  event of the whole input that is not blocked starts on the local calendar day of the
  checkout's date. The event the checkout comes from counts too: a booking that starts
  and ends on one day marks its own checkout.
\<close>

theorem same_day_checkin_detection:
  "\<forall>c\<in>set (extractCheckouts tz events).
     (has_same_day_checkin c \<longleftrightarrow>
        (\<exists>e\<in>set events. \<not> isBlocked (summary e) \<and>
                         localDay tz (start e) = localDay tz (date c))) \<and>
     (localDay tz (start (event c)) = localDay tz (end' (event c)) \<longrightarrow> has_same_day_checkin c)"
proof
  fix c assume c: "c \<in> set (extractCheckouts tz events)"
  have iff: "has_same_day_checkin c \<longleftrightarrow>
        (\<exists>e\<in>set events. \<not> isBlocked (summary e) \<and>
                         localDay tz (start e) = localDay tz (date c))"
    using extractCheckouts_fields(2)[OF c]
    by (simp add: detectSameDayTurnaround_iff setHoursZero_eq_iff)
  have "has_same_day_checkin c"
    if "localDay tz (start (event c)) = localDay tz (end' (event c))"
    using that extractCheckouts_fields(1,3,4)[OF c] iff by auto
  with iff show "(has_same_day_checkin c \<longleftrightarrow>
        (\<exists>e\<in>set events. \<not> isBlocked (summary e) \<and>
                         localDay tz (start e) = localDay tz (date c))) \<and>
     (localDay tz (start (event c)) = localDay tz (end' (event c)) \<longrightarrow> has_same_day_checkin c)"
    by blast
qed


theorem same_day_checkin_detection_witness:
  "extractCheckouts 0 [booking_B, single_day, booking_A] =
     [\<lparr>date = end' booking_A, event = booking_A, has_same_day_checkin = True,
       next_checkin_date = Some (start booking_B)\<rparr>,
      \<lparr>date = end' booking_B, event = booking_B, has_same_day_checkin = False,
       next_checkin_date = Some (start single_day)\<rparr>,
      \<lparr>date = end' single_day, event = single_day, has_same_day_checkin = True,
       next_checkin_date = None\<rparr>] \<and>
   localDay 0 (start booking_B) = localDay 0 (end' booking_A) \<and>
   localDay 0 (start single_day) = localDay 0 (end' single_day) \<and>
   localDay 0 (start booking_B) \<noteq> localDay 0 (end' booking_B) \<and>
   localDay 0 (start single_day) \<noteq> localDay 0 (end' booking_B) \<and>
   localDay 0 (start booking_A) \<noteq> localDay 0 (end' booking_B) \<and>
   extractCheckouts 0 [booking_B_late, booking_A] =
     [\<lparr>date = end' booking_A, event = booking_A, has_same_day_checkin = False,
       next_checkin_date = Some (start booking_B_late)\<rparr>,
      \<lparr>date = end' booking_B_late, event = booking_B_late, has_same_day_checkin = False,
       next_checkin_date = None\<rparr>]"
  using same_day_checkin_detection[of 0 "[booking_B, single_day, booking_A]"]
  by code_simp

lemma length_extractLoop:
  "length (extractLoop tz all xs) = length (filter (\<lambda>e. \<not> isBlocked (summary e)) xs)"
  by (induction xs) auto

lemma checkoutIndex_less:
  assumes "i < length xs" and "\<not> isBlocked (summary (xs ! i))"
  shows "checkoutIndex xs i < length (extractLoop tz all xs)"
proof -
  have "xs = take i xs @ xs ! i # drop (Suc i) xs"
    using assms(1) by (simp add: id_take_nth_drop)
  then have "filter (\<lambda>e. \<not> isBlocked (summary e)) xs =
      filter (\<lambda>e. \<not> isBlocked (summary e)) (take i xs) @
      xs ! i # filter (\<lambda>e. \<not> isBlocked (summary e)) (drop (Suc i) xs)"
    using assms(2) by (metis filter.simps(2) filter_append)
  then show ?thesis
    by (simp add: checkoutIndex_def length_extractLoop)
qed

lemma nextCheckinDate_drop_None_iff:
  "nextCheckinDate (drop (Suc i) s) = None \<longleftrightarrow>
     (\<forall>j. i < j \<and> j < length s \<longrightarrow> isBlocked (summary (s ! j)))"
proof -
  have "(\<forall>j<length s - Suc i. isBlocked (summary (s ! (Suc i + j)))) \<longleftrightarrow>
        (\<forall>j. i < j \<and> j < length s \<longrightarrow> isBlocked (summary (s ! j)))" (is "?L \<longleftrightarrow> ?R")
  proof
    assume l: ?L
    show ?R
    proof (intro allI impI)
      fix j assume j: "i < j \<and> j < length s"
      then have "j - Suc i < length s - Suc i" by arith
      with l have "isBlocked (summary (s ! (Suc i + (j - Suc i))))" by blast
      with j show "isBlocked (summary (s ! j))" by simp
    qed
  next
    assume r: ?R
    show ?L
    proof (intro allI impI)
      fix j assume "j < length s - Suc i"
      then have "i < Suc i + j \<and> Suc i + j < length s" by arith
      with r show "isBlocked (summary (s ! (Suc i + j)))" by blast
    qed
  qed
  then show ?thesis
    by (simp add: nextCheckinDate_None_iff)
qed

lemma nextCheckinDate_drop_first:
  assumes "i < j" and "j < length s" and "\<not> isBlocked (summary (s ! j))"
    and "\<forall>k. i < k \<and> k < j \<longrightarrow> isBlocked (summary (s ! k))"
  shows "nextCheckinDate (drop (Suc i) s) = Some (start (s ! j))"
proof -
  let ?d = "drop (Suc i) s" and ?j = "j - Suc i"
  have j: "?j < length ?d" using assms(1,2) by simp
  have at: "?d ! ?j = s ! j" using assms(1,2) by simp
  have before: "\<forall>k<?j. isBlocked (summary (?d ! k))"
  proof (intro allI impI)
    fix k assume "k < ?j"
    then have "i < Suc i + k \<and> Suc i + k < j" by arith
    with assms(4) have "isBlocked (summary (s ! (Suc i + k)))" by blast
    then show "isBlocked (summary (?d ! k))" using assms(2) \<open>k < ?j\<close> by simp
  qed
  from nextCheckinDate_first[OF j _ before] assms(3) at show ?thesis by simp
qed

text \<open>
  Claim C5 (next check-in). Let \<open>i\<close> be the position of an event that is not blocked in
  the events sorted by end. Its checkout (the one at \<open>checkoutIndex\<close>, the number of
  events before \<open>i\<close> that are not blocked) has as \<open>next_checkin_date\<close> the start of the
  first event after position \<open>i\<close> that is not blocked, and none when every later event
  is blocked.
\<close>

theorem next_checkin_lookup:
  assumes "i < length (sort_key end' events)"
    and "\<not> isBlocked (summary (sort_key end' events ! i))"
  shows "checkoutIndex (sort_key end' events) i < length (extractCheckouts tz events) \<and>
     event (extractCheckouts tz events ! checkoutIndex (sort_key end' events) i) =
       sort_key end' events ! i \<and>
     (next_checkin_date (extractCheckouts tz events ! checkoutIndex (sort_key end' events) i) = None
        \<longleftrightarrow> (\<forall>j. i < j \<and> j < length events \<longrightarrow>
               isBlocked (summary (sort_key end' events ! j)))) \<and>
     (\<forall>j. i < j \<and> j < length events \<and>
          \<not> isBlocked (summary (sort_key end' events ! j)) \<and>
          (\<forall>k. i < k \<and> k < j \<longrightarrow> isBlocked (summary (sort_key end' events ! k)))
        \<longrightarrow> next_checkin_date (extractCheckouts tz events ! checkoutIndex (sort_key end' events) i)
              = Some (start (sort_key end' events ! j)))"
proof -
  let ?s = "sort_key end' events"
  from assms(1) have ne: "events \<noteq> []" by auto
  then have ex: "extractCheckouts tz events = extractLoop tz ?s ?s"
    by (simp add: extractCheckouts_def Let_def)
  have at: "extractCheckouts tz events ! checkoutIndex ?s i =
     \<lparr>date = end' (?s ! i), event = ?s ! i,
      has_same_day_checkin = detectSameDayTurnaround tz (end' (?s ! i)) ?s,
      next_checkin_date = nextCheckinDate (drop (Suc i) ?s)\<rparr>"
    unfolding ex checkoutIndex_def using assms by (rule extractLoop_nth)
  have "checkoutIndex ?s i < length (extractCheckouts tz events)"
    unfolding ex using assms by (rule checkoutIndex_less)
  moreover have "event (extractCheckouts tz events ! checkoutIndex ?s i) = ?s ! i"
    by (simp add: at)
  moreover have "next_checkin_date (extractCheckouts tz events ! checkoutIndex ?s i) = None
        \<longleftrightarrow> (\<forall>j. i < j \<and> j < length events \<longrightarrow> isBlocked (summary (?s ! j)))"
    using nextCheckinDate_drop_None_iff[of i ?s] by (simp add: at)
  moreover have "\<forall>j. i < j \<and> j < length events \<and>
          \<not> isBlocked (summary (?s ! j)) \<and>
          (\<forall>k. i < k \<and> k < j \<longrightarrow> isBlocked (summary (?s ! k)))
        \<longrightarrow> next_checkin_date (extractCheckouts tz events ! checkoutIndex ?s i)
              = Some (start (?s ! j))"
  proof (intro allI impI)
    fix j
    assume h: "i < j \<and> j < length events \<and>
          \<not> isBlocked (summary (?s ! j)) \<and>
          (\<forall>k. i < k \<and> k < j \<longrightarrow> isBlocked (summary (?s ! k)))"
    then have "nextCheckinDate (drop (Suc i) ?s) = Some (start (?s ! j))"
      by (intro nextCheckinDate_drop_first) auto
    then show "next_checkin_date (extractCheckouts tz events ! checkoutIndex ?s i)
              = Some (start (?s ! j))"
      by (simp add: at)
  qed
  ultimately show ?thesis by blast
qed

theorem next_checkin_lookup_witness:
  "sort_key end' [booking_B, blocked_range, booking_A] = [booking_A, blocked_range, booking_B] \<and>
   \<not> isBlocked (summary booking_A) \<and> isBlocked (summary blocked_range) \<and>
   \<not> isBlocked (summary booking_B) \<and>
   checkoutIndex (sort_key end' [booking_B, blocked_range, booking_A]) 0 = 0 \<and>
   event (extractCheckouts 0 [booking_B, blocked_range, booking_A] ! 0) = booking_A \<and>
   next_checkin_date (extractCheckouts 0 [booking_B, blocked_range, booking_A] ! 0)
     = Some (start booking_B) \<and>
   start booking_B = 1705071600000"
proof -
  let ?evs = "[booking_B, blocked_range, booking_A]"
  let ?s = "sort_key end' ?evs"
  have s: "?s = [booking_A, blocked_range, booking_B]" by code_simp
  have blk: "\<not> isBlocked (summary booking_A)" "isBlocked (summary blocked_range)"
    "\<not> isBlocked (summary booking_B)" by code_simp+
  have h1: "0 < length ?s" by simp
  have h2: "\<not> isBlocked (summary (?s ! 0))" unfolding s using blk by simp
  have idx: "checkoutIndex ?s 0 = 0" by (simp add: checkoutIndex_def)
  have between: "\<forall>k. 0 < k \<and> k < 2 \<longrightarrow> isBlocked (summary (?s ! k))"
  proof (intro allI impI)
    fix k :: nat assume "0 < k \<and> k < 2"
    then have "k = 1" by arith
    then show "isBlocked (summary (?s ! k))" unfolding s using blk by simp
  qed
  have j: "0 < (2::nat) \<and> 2 < length ?evs \<and> \<not> isBlocked (summary (?s ! 2))"
    unfolding s using blk by simp
  from next_checkin_lookup[OF h1 h2, of 0]
  have ev: "event (extractCheckouts 0 ?evs ! checkoutIndex ?s 0) = ?s ! 0"
    and nx: "\<forall>j. 0 < j \<and> j < length ?evs \<and> \<not> isBlocked (summary (?s ! j)) \<and>
          (\<forall>k. 0 < k \<and> k < j \<longrightarrow> isBlocked (summary (?s ! k)))
        \<longrightarrow> next_checkin_date (extractCheckouts 0 ?evs ! checkoutIndex ?s 0)
              = Some (start (?s ! j))"
    by blast+
  from nx j between
  have "next_checkin_date (extractCheckouts 0 ?evs ! checkoutIndex ?s 0) = Some (start (?s ! 2))"
    by blast
  then have "next_checkin_date (extractCheckouts 0 ?evs ! 0) = Some (start booking_B)"
    unfolding idx unfolding s by simp
  moreover from ev have "event (extractCheckouts 0 ?evs ! 0) = booking_A"
    unfolding idx unfolding s by simp
  moreover have "start booking_B = 1705071600000" by (simp add: booking_B_def)
  ultimately show ?thesis using s blk idx by simp
qed

section \<open>The upcoming-window filter\<close>

text \<open>
  Claim C6 (window boundary). The filter keeps, in their order, the checkouts whose local
  calendar day is no earlier than the day of the clock and no later than that day plus
  the horizon (30 when no horizon is given); both ends are kept.
\<close>

theorem upcoming_window_filter:
  "filterUpcomingCheckouts tz clock checkouts days_arg =
     filter (\<lambda>c. localDay tz clock \<le> localDay tz (date c) \<and>
                 localDay tz (date c) \<le>
                   localDay tz clock + (case days_arg of None \<Rightarrow> 30 | Some d \<Rightarrow> d))
            checkouts"
  unfolding filterUpcomingCheckouts_def Let_def
  by (simp add: setHoursZero_le_iff setHoursZero_le_addDays_iff)

text \<open>
  The clock reads 1 January 2024 00:00 UTC. Kept: 31 January 00:00 and 23:59:59.999, and
  1 January 00:00. Dropped: 1 February 00:00 and 31 December 23:59:59.999.
\<close>

theorem upcoming_window_filter_witness:
  "filterUpcomingCheckouts 0 1704067200000
     [checkout_on 1706745600000, checkout_on 1706659200000, checkout_on 1704067199999,
      checkout_on 1706745599999, checkout_on 1704067200000] None =
     [checkout_on 1706659200000, checkout_on 1706745599999, checkout_on 1704067200000]"
  using upcoming_window_filter[of 0 1704067200000
     "[checkout_on 1706745600000, checkout_on 1706659200000, checkout_on 1704067199999,
      checkout_on 1706745599999, checkout_on 1704067200000]" None]
  by code_simp

section \<open>The calendar parser\<close>

lemma not_blocked_untitled: "\<not> isBlocked ''Untitled Event''"
  by code_simp

lemma parseEvents_mem:
  "Readable v \<in> set vevents \<Longrightarrow> v_startDate v = Some s \<Longrightarrow>
     \<lparr>uid = or_default (v_uid v) '''',
      summary = or_default (v_summary v) ''Untitled Event'',
      description = or_default (v_description v) '''',
      start = s,
      end' = (case v_endDate v of Some endDate \<Rightarrow> endDate | None \<Rightarrow> s),
      location = or_default (v_location v) ''''\<rparr> \<in> set (parseEvents vevents)"
  by (induction vevents rule: parseEvents.induct) (auto split: option.splits)

lemma checkout_of_event:
  assumes "e \<in> set events" and "\<not> isBlocked (summary e)"
  shows "\<exists>c\<in>set (extractCheckouts tz events). event c = e \<and> date c = end' e"
proof -
  from assms have "e \<in> set (map event (extractCheckouts tz events))"
    by (simp add: extractCheckouts_events)
  then obtain c where "c \<in> set (extractCheckouts tz events)" and "event c = e" by auto
  with extractCheckouts_fields(1)[of c tz events] show ?thesis by auto
qed

text \<open>
  Claim C10 (missing summary). A readable entry of the feed with a start time and no
  summary is parsed to an event labelled \<open>Untitled Event\<close>; the label is not blocked, so
  the extractor gives a checkout for that event, dated at its end (the entry's end time,
  or its start time when it has no end).
\<close>

theorem missing_summary_default:
  assumes "parse icalData = Some vevents"
    and "Readable v \<in> set vevents"
    and "v_startDate v = Some s"
    and "v_summary v = None"
  shows "\<exists>events e. parseICalData parse icalData = Inr events \<and> e \<in> set events \<and>
           summary e = ''Untitled Event'' \<and> \<not> isBlocked (summary e) \<and> start e = s \<and>
           end' e = (case v_endDate v of Some t \<Rightarrow> t | None \<Rightarrow> s) \<and>
           (\<exists>c\<in>set (extractCheckouts tz events). event c = e \<and> date c = end' e)"
proof -
  let ?e = "\<lparr>uid = or_default (v_uid v) '''',
      summary = or_default (v_summary v) ''Untitled Event'',
      description = or_default (v_description v) '''',
      start = s,
      end' = (case v_endDate v of Some endDate \<Rightarrow> endDate | None \<Rightarrow> s),
      location = or_default (v_location v) ''''\<rparr>"
  have p: "parseICalData parse icalData = Inr (parseEvents vevents)"
    using assms(1) by (simp add: parseICalData_def)
  have m: "?e \<in> set (parseEvents vevents)"
    using assms(2,3) by (rule parseEvents_mem)
  have l: "summary ?e = ''Untitled Event''"
    using assms(4) by (simp add: or_default_def)
  then have nb: "\<not> isBlocked (summary ?e)"
    using not_blocked_untitled by simp
  from checkout_of_event[OF m nb]
  have c: "\<exists>c\<in>set (extractCheckouts tz (parseEvents vevents)). event c = ?e \<and> date c = end' ?e" .
  show ?thesis
    apply (rule exI[of _ "parseEvents vevents"])
    apply (rule exI[of _ ?e])
    using p m l nb c by simp
qed


theorem missing_summary_default_witness:
  "small_feed ''BEGIN:VCALENDAR...'' = Some [Unreadable, Readable unlabelled_entry] \<and>
   v_startDate unlabelled_entry = Some 1705057200000 \<and>
   v_summary unlabelled_entry = None \<and>
   (\<exists>events e. parseICalData small_feed ''BEGIN:VCALENDAR...'' = Inr events \<and> e \<in> set events \<and>
           summary e = ''Untitled Event'' \<and> \<not> isBlocked (summary e) \<and>
           start e = 1705057200000 \<and> end' e = 1705230000000 \<and>
           (\<exists>c\<in>set (extractCheckouts 0 events). event c = e \<and> date c = end' e))"
proof -
  have h1: "small_feed ''BEGIN:VCALENDAR...'' = Some [Unreadable, Readable unlabelled_entry]"
    by (simp add: small_feed_def)
  have h2: "Readable unlabelled_entry \<in> set [Unreadable, Readable unlabelled_entry]" by simp
  have h3: "v_startDate unlabelled_entry = Some 1705057200000"
    and h4: "v_summary unlabelled_entry = None"
    and h5: "v_endDate unlabelled_entry = Some 1705230000000"
    by (simp_all add: unlabelled_entry_def)
  from missing_summary_default[where parse = small_feed and icalData = "''BEGIN:VCALENDAR...''"
      and tz = 0, OF h1 h2 h3 h4] h1 h3 h4 h5
  show ?thesis by simp
qed

section \<open>The job reconciler and the sync of a property\<close>

subsection \<open>The date part of a timestamp\<close>

lemma digit_char_not_T: "n < 10 \<Longrightarrow> digit_char n \<noteq> CHR ''T''"
proof -
  assume "n < 10"
  then have "n \<in> {0, 1, 2, 3, 4, 5, 6, 7, 8, 9}" by auto
  then show ?thesis by (auto simp: digit_char_def)
qed

lemma digits_not_T: "CHR ''T'' \<notin> set (digits n)"
proof (induction n rule: digits.induct)
  case (1 n)
  show ?case
  proof (cases "n < 10")
    case True
    then show ?thesis using digit_char_not_T[of n] by (subst digits.simps) auto
  next
    case False
    have "n mod 10 < 10" by simp
    from digit_char_not_T[OF this] 1[OF False] False show ?thesis
      by (subst digits.simps) auto
  qed
qed

lemma pad_not_T: "CHR ''T'' \<notin> set (pad w n)"
  using digits_not_T by (auto simp: pad_def)

lemma year_string_not_T: "CHR ''T'' \<notin> set (year_string y)"
  using pad_not_T by (auto simp: year_string_def)

lemma date_string_not_T: "CHR ''T'' \<notin> set (date_string z)"
  using pad_not_T year_string_not_T by (auto simp: date_string_def split: prod.splits)

lemma split_T_first_toISOString: "split_T_first (toISOString t) = date_string (utcDay t)"
proof -
  have "\<forall>c\<in>set (date_string (t div msPerDay)). c \<noteq> CHR ''T''"
    using date_string_not_T by auto
  then have "takeWhile (\<lambda>c. c \<noteq> CHR ''T'')
       (date_string (t div msPerDay) @ (''T'' @ time_string (t mod msPerDay) @ ''Z'')) =
     date_string (t div msPerDay) @
       takeWhile (\<lambda>c. c \<noteq> CHR ''T'') (''T'' @ time_string (t mod msPerDay) @ ''Z'')"
    by (intro takeWhile_append2) auto
  then show ?thesis
    by (simp add: split_T_first_def toISOString_def utcDay_def)
qed

lemma same_day_same_key:
  "utcDay t = utcDay t' \<Longrightarrow> split_T_first (toISOString t) = split_T_first (toISOString t')"
  by (simp add: split_T_first_toISOString)

subsection \<open>The loop over the checkouts\<close>

lemma processCheckouts_step:
  "processCheckouts pid cleaner (c # cs) s =
     processCheckouts pid cleaner cs (checkoutStep pid cleaner c s)"
proof (cases s)
  case (Pair db n)
  have len: "\<And>xs :: CleaningJob list. (0 < length xs) = (xs \<noteq> [])" by simp
  have ex: "(filter (\<lambda>j. job_property_id j = pid \<and> checkout_date j = checkoutKey c)
               (cleaning_jobs db) \<noteq> []) = has_job db pid (checkoutKey c)"
    by (auto simp: has_job_def filter_empty_conv)
  show ?thesis
    unfolding Pair
    by (cases "failures db" rule: list.exhaust; 
        auto simp add: checkoutStep_def select_cleaning_jobs_def insert_cleaning_job_def
          next_outcome_def Let_def ex[unfolded checkoutKey_def] checkoutKey_def jobFor_def has_job_def
          split: option.splits list.splits)
qed

lemma checkoutStep_cases:
  assumes "checkoutStep pid cleaner c (db, n) = (db', n')"
  shows "properties db' = properties db \<and> property_cleaners db' = property_cleaners db \<and>
         set (failures db') \<subseteq> set (failures db) \<and>
         (cleaning_jobs db' = cleaning_jobs db \<and> n' = n \<or>
          cleaning_jobs db' = cleaning_jobs db @ [jobFor pid cleaner c] \<and> n' = n + 1 \<and>
          \<not> has_job db pid (checkoutKey c))"
  using assms unfolding checkoutStep_def
  by (auto split: list.splits option.splits if_splits)




lemma processCheckouts_grow:
  "processCheckouts pid cleaner cs (db, n) = (db', n') \<Longrightarrow>
     properties db' = properties db \<and> property_cleaners db' = property_cleaners db \<and>
     set (failures db') \<subseteq> set (failures db) \<and>
     (\<exists>new. cleaning_jobs db' = cleaning_jobs db @ new \<and> n' = n + length new \<and>
            set new \<subseteq> jobFor pid cleaner ` set cs)"
proof (induction cs arbitrary: db n)
  case Nil
  then show ?case by simp
next
  case (Cons c cs)
  obtain db1 n1 where st: "checkoutStep pid cleaner c (db, n) = (db1, n1)"
    by (cases "checkoutStep pid cleaner c (db, n)")
  with Cons.prems have run: "processCheckouts pid cleaner cs (db1, n1) = (db', n')"
    by (simp add: processCheckouts_step)
  note ih = Cons.IH[OF run]
  note s1 = checkoutStep_cases[OF st]
  from ih obtain new where new: "cleaning_jobs db' = cleaning_jobs db1 @ new"
    "n' = n1 + length new" "set new \<subseteq> jobFor pid cleaner ` set cs" by blast
  from s1 consider "cleaning_jobs db1 = cleaning_jobs db" "n1 = n"
    | "cleaning_jobs db1 = cleaning_jobs db @ [jobFor pid cleaner c]" "n1 = n + 1"
    by blast
  then have "\<exists>new'. cleaning_jobs db' = cleaning_jobs db @ new' \<and> n' = n + length new' \<and>
            set new' \<subseteq> jobFor pid cleaner ` set (c # cs)"
  proof cases
    case 1
    with new show ?thesis by (intro exI[of _ new]) auto
  next
    case 2
    with new show ?thesis by (intro exI[of _ "jobFor pid cleaner c # new"]) auto
  qed
  moreover from ih s1 have "properties db' = properties db"
    "property_cleaners db' = property_cleaners db" "set (failures db') \<subseteq> set (failures db)"
    by auto
  ultimately show ?case by blast
qed

lemma processCheckouts_created:
  "processCheckouts pid cleaner cs (db, n) = (db', n') \<Longrightarrow>
     \<exists>created. subseq created cs \<and>
        cleaning_jobs db' = cleaning_jobs db @ map (jobFor pid cleaner) created \<and>
        n' = n + length created"
proof (induction cs arbitrary: db n)
  case Nil
  then show ?case by (intro exI[of _ "[]"]) simp
next
  case (Cons c cs)
  obtain db1 n1 where st: "checkoutStep pid cleaner c (db, n) = (db1, n1)"
    by (cases "checkoutStep pid cleaner c (db, n)")
  with Cons.prems have run: "processCheckouts pid cleaner cs (db1, n1) = (db', n')"
    by (simp add: processCheckouts_step)
  from Cons.IH[OF run] obtain created where created: "subseq created cs"
    "cleaning_jobs db' = cleaning_jobs db1 @ map (jobFor pid cleaner) created"
    "n' = n1 + length created" by blast
  from checkoutStep_cases[OF st] consider "cleaning_jobs db1 = cleaning_jobs db" "n1 = n"
    | "cleaning_jobs db1 = cleaning_jobs db @ [jobFor pid cleaner c]" "n1 = n + 1"
    by blast
  then show ?case
  proof cases
    case 1
    with created show ?thesis by (intro exI[of _ created]) auto
  next
    case 2
    with created show ?thesis by (intro exI[of _ "c # created"]) auto
  qed
qed



subsection \<open>One property\<close>


lemma next_outcome_tables:
  "properties (snd (next_outcome db)) = properties db"
  "property_cleaners (snd (next_outcome db)) = property_cleaners db"
  "cleaning_jobs (snd (next_outcome db)) = cleaning_jobs db"
  "set (failures (snd (next_outcome db))) \<subseteq> set (failures db)"
  by (auto simp: next_outcome_def split: list.splits)


lemma select_property_cleaners_cases:
  "select_property_cleaners db pid =
     (case fst (next_outcome db) of
        Some msg \<Rightarrow> (Inl msg, snd (next_outcome db))
      | None \<Rightarrow> (Inr (sort_key (\<lambda>pc. \<not> is_primary pc)
                  (filter (\<lambda>pc. pc_property_id pc = pid) (property_cleaners db))),
                 snd (next_outcome db)))"
proof -
  obtain f d where n: "next_outcome db = (f, d)" by (cases "next_outcome db")
  with next_outcome_tables(2)[of db] have "property_cleaners d = property_cleaners db" by simp
  with n show ?thesis by (simp add: select_property_cleaners_def split: option.splits)
qed

text \<open>The three ways a sync of one property ends.\<close>

lemma syncProperty_fetch_failed:
  "parseICalFromUrl rt (ical_url p) = Inl msg \<Longrightarrow> syncProperty rt p db = sync_failed p msg db"
  by (simp add: syncProperty_def)

lemma syncProperty_cleaners_failed:
  "parseICalFromUrl rt (ical_url p) = Inr events \<Longrightarrow> fst (next_outcome db) = Some e \<Longrightarrow>
   syncProperty rt p db =
     sync_failed p (''Failed to fetch cleaners: '' @ e) (snd (next_outcome db))"
  by (simp add: syncProperty_def Let_def select_property_cleaners_cases)

lemma syncProperty_succeeded:
  assumes "parseICalFromUrl rt (ical_url p) = Inr events" and "fst (next_outcome db) = None"
    and "processCheckouts (id' p)
           (assignedCleanerId (sort_key (\<lambda>pc. \<not> is_primary pc)
                  (filter (\<lambda>pc. pc_property_id pc = id' p) (property_cleaners db))))
           (upcomingCheckouts rt events) (snd (next_outcome db), 0) = (db2, n)"
  shows "syncProperty rt p db =
     (\<lparr>property_id = id' p, property_name = name p, success = True, jobs_created = n,
       error = None\<rparr>,
      update_property db2 (id' p)
        (\<lambda>p. p\<lparr>last_synced := Some (toISOString (time_now rt)), sync_error := None\<rparr>))"
  using assms
  by (simp add: syncProperty_def Let_def select_property_cleaners_cases upcomingCheckouts_def)




lemma syncProperty_result_cases:
  obtains (fetch_failed) msg where "parseICalFromUrl rt (ical_url p) = Inl msg"
      "syncProperty rt p db = sync_failed p msg db"
  | (cleaners_failed) events e where "parseICalFromUrl rt (ical_url p) = Inr events"
      "fst (next_outcome db) = Some e"
      "syncProperty rt p db =
         sync_failed p (''Failed to fetch cleaners: '' @ e) (snd (next_outcome db))"
  | (succeeded) events db2 n where "parseICalFromUrl rt (ical_url p) = Inr events"
      "fst (next_outcome db) = None"
      "processCheckouts (id' p) (assignedCleanerId (propertyCleanersOf db (id' p)))
           (upcomingCheckouts rt events) (snd (next_outcome db), 0) = (db2, n)"
      "syncProperty rt p db =
         (\<lparr>property_id = id' p, property_name = name p, success = True, jobs_created = n,
           error = None\<rparr>,
          update_property db2 (id' p)
            (\<lambda>p. p\<lparr>last_synced := Some (toISOString (time_now rt)), sync_error := None\<rparr>))"
proof (cases "parseICalFromUrl rt (ical_url p)")
  case (Inl msg)
  then show ?thesis using fetch_failed syncProperty_fetch_failed by blast
next
  case (Inr events)
  show ?thesis
  proof (cases "fst (next_outcome db)")
    case (Some e)
    from syncProperty_cleaners_failed[OF Inr Some] Inr Some show ?thesis
      by (rule cleaners_failed[rotated 2])
  next
    case None
    obtain db2 n where run: "processCheckouts (id' p)
        (assignedCleanerId (propertyCleanersOf db (id' p)))
           (upcomingCheckouts rt events) (snd (next_outcome db), 0) = (db2, n)"
      by (cases "processCheckouts (id' p)
        (assignedCleanerId (propertyCleanersOf db (id' p)))
           (upcomingCheckouts rt events) (snd (next_outcome db), 0)")
    from syncProperty_succeeded[OF Inr None run[unfolded propertyCleanersOf_def]]
    show ?thesis using Inr None run by (intro succeeded)
  qed
qed

lemma sync_failed_properties_any:
  "properties (snd (sync_failed p msg db)) =
     map (markProperty rt p (fst (sync_failed p msg db))) (properties db)"
  by (simp add: sync_failed_def update_property_def markProperty_def Let_def)

lemma syncProperty_properties:
  "properties (snd (syncProperty rt p db)) =
     map (markProperty rt p (fst (syncProperty rt p db))) (properties db)"
proof (cases rule: syncProperty_result_cases[of rt p db])
  case (fetch_failed msg)
  then show ?thesis by (simp add: sync_failed_properties_any)
next
  case (cleaners_failed events e)
  then show ?thesis
    using sync_failed_properties_any[of p _ "snd (next_outcome db)" rt]
    by (simp add: next_outcome_tables)
next
  case (succeeded events db2 n)
  from processCheckouts_grow[OF succeeded(3)] have "properties db2 = properties db"
    by (simp add: next_outcome_tables)
  with succeeded(4) show ?thesis
    by (simp add: update_property_def markProperty_def)
qed

lemma syncProperty_error:
  "\<not> success (fst (syncProperty rt p db)) \<Longrightarrow> error (fst (syncProperty rt p db)) \<noteq> None"
  by (cases rule: syncProperty_result_cases[of rt p db]) (simp_all add: sync_failed_def Let_def)

subsection \<open>The example, run\<close>

lemma example_feed_1:
  "parseICalFromUrl example_runtime (ical_url property_1) =
     Inr [booking_B, blocked_range, booking_A]"
  by code_simp

lemma example_feed_2:
  "parseICalFromUrl example_runtime (ical_url property_2) =
     Inl ''Failed to fetch iCal: 500 Internal Server Error''"
  by code_simp

lemma example_sync_1:
  "syncProperty example_runtime property_1 (example_database\<lparr>failures := replicate 5 None\<rparr>) =
    (\<lparr>property_id = ''p1'', property_name = ''Beach House'', success = True,
      jobs_created = 2, error = None\<rparr>,
     example_database
       \<lparr>properties :=
          [property_1\<lparr>last_synced := Some ''2024-01-05T09:30:00.000Z'', sync_error := None\<rparr>,
           property_2, property_3],
        cleaning_jobs :=
          [\<lparr>job_property_id = ''p1'', job_cleaner_id = Some ''c9'',
            checkout_date = ''2024-01-12'', checkin_date = Some ''2024-01-12'',
            status = ''pending'', is_same_day_turnaround = True\<rparr>,
           \<lparr>job_property_id = ''p1'', job_cleaner_id = Some ''c9'',
            checkout_date = ''2024-01-15'', checkin_date = None,
            status = ''pending'', is_same_day_turnaround = False\<rparr>]\<rparr>)"
  by code_simp


lemma example_sync_1_insert_failed:
  "syncProperty example_runtime property_1
      (example_database\<lparr>failures := [None, None, Some ''duplicate key value'']\<rparr>) =
    (\<lparr>property_id = ''p1'', property_name = ''Beach House'', success = True,
      jobs_created = 1, error = None\<rparr>,
     example_database
       \<lparr>properties :=
          [property_1\<lparr>last_synced := Some ''2024-01-05T09:30:00.000Z'', sync_error := None\<rparr>,
           property_2, property_3],
        cleaning_jobs :=
          [\<lparr>job_property_id = ''p1'', job_cleaner_id = Some ''c9'',
            checkout_date = ''2024-01-15'', checkin_date = None,
            status = ''pending'', is_same_day_turnaround = False\<rparr>]\<rparr>)"
  by code_simp

lemma example_sync_2:
  "syncProperty example_runtime property_2 example_database =
    (\<lparr>property_id = ''p2'', property_name = ''City Loft'', success = False,
      jobs_created = 0, error = Some ''Failed to fetch iCal: 500 Internal Server Error''\<rparr>,
     example_database
       \<lparr>properties :=
          [property_1,
           property_2\<lparr>sync_error := Some ''Failed to fetch iCal: 500 Internal Server Error''\<rparr>,
           property_3]\<rparr>)"
  by code_simp

lemma example_serve:
  "fst (serve example_runtime example_database) =
     jsonResponse
       \<lparr>message = ''Calendar sync completed'', synced = 2, errors = 1,
        total_jobs_created = 3,
        details = Some
          [\<lparr>property_id = ''p1'', property_name = ''Beach House'', success = True,
            jobs_created = 2, error = None\<rparr>,
           \<lparr>property_id = ''p2'', property_name = ''City Loft'', success = False,
            jobs_created = 0,
            error = Some ''Failed to fetch iCal: 500 Internal Server Error''\<rparr>,
           \<lparr>property_id = ''p3'', property_name = ''Cabin'', success = True,
            jobs_created = 1, error = None\<rparr>]\<rparr>"
  "map (\<lambda>j. (job_property_id j, checkout_date j))
     (cleaning_jobs (snd (serve example_runtime example_database))) =
     [(''p1'', ''2024-01-12''), (''p1'', ''2024-01-15''), (''p3'', ''2024-01-20'')]"
  by code_simp+





text \<open>
  Claim C9 (sync markers). A sync of a property leaves the rows of the other properties
  as they are. In the rows of the property, a sync that succeeds sets \<open>last_synced\<close> to
  the time of the clock and \<open>sync_error\<close> to null; a sync that fails sets \<open>sync_error\<close>
  to the error of the result and leaves \<open>last_synced\<close>. No other field changes.
\<close>

theorem sync_marker_frame:
  assumes "syncProperty rt p db = (r, db')"
  shows "length (properties db') = length (properties db) \<and>
    (\<forall>i<length (properties db).
        (id' (properties db ! i) \<noteq> id' p \<longrightarrow> properties db' ! i = properties db ! i) \<and>
        (id' (properties db ! i) = id' p \<and> success r \<longrightarrow>
           properties db' ! i =
             (properties db ! i)\<lparr>last_synced := Some (toISOString (time_now rt)),
                                  sync_error := None\<rparr>) \<and>
        (id' (properties db ! i) = id' p \<and> \<not> success r \<longrightarrow>
           error r \<noteq> None \<and>
           properties db' ! i = (properties db ! i)\<lparr>sync_error := error r\<rparr>))"
proof -
  from assms syncProperty_properties[of rt p db]
  have ps: "properties db' = map (markProperty rt p r) (properties db)" by simp
  from assms syncProperty_error[of rt p db]
  have er: "\<not> success r \<Longrightarrow> error r \<noteq> None" by simp
  show ?thesis
    unfolding ps using er by (simp add: markProperty_def)
qed

theorem sync_marker_frame_witness:
  "success (fst (syncProperty example_runtime property_1
      (example_database\<lparr>failures := replicate 5 None\<rparr>))) \<and>
   properties (snd (syncProperty example_runtime property_1
      (example_database\<lparr>failures := replicate 5 None\<rparr>))) =
     [property_1\<lparr>last_synced := Some ''2024-01-05T09:30:00.000Z'', sync_error := None\<rparr>,
      property_2, property_3] \<and>
   sync_error property_1 = Some ''Failed to parse iCal data'' \<and>
   \<not> success (fst (syncProperty example_runtime property_2 example_database)) \<and>
   properties (snd (syncProperty example_runtime property_2 example_database)) =
     [property_1,
      property_2\<lparr>sync_error := Some ''Failed to fetch iCal: 500 Internal Server Error''\<rparr>,
      property_3] \<and>
   last_synced (properties (snd (syncProperty example_runtime property_2 example_database)) ! 1) =
     last_synced property_2"
proof -
  let ?db = "example_database\<lparr>failures := replicate 5 None\<rparr>"
  let ?run1 = "syncProperty example_runtime property_1 ?db"
  let ?run2 = "syncProperty example_runtime property_2 example_database"
  have ids: "id' property_1 = ''p1''" "id' property_2 = ''p2''" "id' property_3 = ''p3''"
    by (simp_all add: property_1_def property_2_def property_3_def)
  have props: "properties ?db = [property_1, property_2, property_3]"
    "properties example_database = [property_1, property_2, property_3]"
    by (simp_all add: example_database_def)
  have now: "toISOString (time_now example_runtime) = ''2024-01-05T09:30:00.000Z''"
    by code_simp
  have s1: "success (fst ?run1)" and s2: "\<not> success (fst ?run2)"
    and e2: "error (fst ?run2) = Some ''Failed to fetch iCal: 500 Internal Server Error''"
    by (simp_all add: example_sync_1 example_sync_2)
  have h1: "?run1 = (fst ?run1, snd ?run1)" and h2: "?run2 = (fst ?run2, snd ?run2)" by simp_all
  note f1 = sync_marker_frame[OF h1] and f2 = sync_marker_frame[OF h2]
  have three: "i < 3 \<longleftrightarrow> i = 0 \<or> i = 1 \<or> i = 2" for i :: nat by arith
  from f1 have len1: "length (properties (snd ?run1)) = 3" by (simp add: props)
  from f1 s1 have r1: "properties (snd ?run1) ! 0 =
      property_1\<lparr>last_synced := Some ''2024-01-05T09:30:00.000Z'', sync_error := None\<rparr>"
    "properties (snd ?run1) ! 1 = property_2" "properties (snd ?run1) ! 2 = property_3"
    unfolding props now by (simp_all add: three ids)
  from f2 have len2: "length (properties (snd ?run2)) = 3" by (simp add: props)
  from f2 s2 e2 have r2: "properties (snd ?run2) ! 0 = property_1"
    "properties (snd ?run2) ! 1 =
       property_2\<lparr>sync_error := Some ''Failed to fetch iCal: 500 Internal Server Error''\<rparr>"
    "properties (snd ?run2) ! 2 = property_3"
    unfolding props by (simp_all add: three ids)
  have list3: "xs = [xs ! 0, xs ! 1, xs ! 2]" if "length xs = 3" for xs :: "Property list"
    using that by (auto simp: list_eq_iff_nth_eq three)
  from list3[OF len1] r1 have p1: "properties (snd ?run1) =
     [property_1\<lparr>last_synced := Some ''2024-01-05T09:30:00.000Z'', sync_error := None\<rparr>,
      property_2, property_3]" by simp
  from list3[OF len2] r2 have p2: "properties (snd ?run2) =
     [property_1,
      property_2\<lparr>sync_error := Some ''Failed to fetch iCal: 500 Internal Server Error''\<rparr>,
      property_3]" by simp
  have "sync_error property_1 = Some ''Failed to parse iCal data''"
    by (simp add: property_1_def)
  with s1 s2 p1 p2 show ?thesis by simp
qed

text \<open>
  Claim C8 (a job that cannot be written). When the feed is read and the query for the
  cleaners succeeds, the result has \<open>success\<close> true and no error whatever fails in the
  loop, and \<open>jobs_created\<close> is the number of rows the sync added to the job table: the
  rows of some of the upcoming checkouts, in their order. A checkout whose insert fails
  (after a check that succeeds and finds no job) leaves table and count as they are, and
  the loop goes on with the remaining checkouts.
\<close>

theorem job_failure_isolation:
  assumes "parseICalFromUrl rt (ical_url p) = Inr events"
    and "fst (next_outcome db) = None"
    and "syncProperty rt p db = (r, db')"
  shows "success r \<and> error r = None \<and>
     (\<exists>created. subseq created (upcomingCheckouts rt events) \<and>
        cleaning_jobs db' =
          cleaning_jobs db @
          map (jobFor (id' p) (assignedCleanerId (propertyCleanersOf db (id' p)))) created \<and>
        jobs_created r = length created) \<and>
     (failures d = None # Some e # fs \<and> \<not> has_job d pid (checkoutKey c) \<longrightarrow>
        processCheckouts pid cleaner (c # cs) (d, n) =
          processCheckouts pid cleaner cs (d\<lparr>failures := fs\<rparr>, n))"
proof -
  have step: "processCheckouts pid cleaner (c # cs) (d, n) =
          processCheckouts pid cleaner cs (d\<lparr>failures := fs\<rparr>, n)"
    if "failures d = None # Some e # fs" and "\<not> has_job d pid (checkoutKey c)"
    using that by (simp add: processCheckouts_step checkoutStep_def)
  show ?thesis
  proof (cases rule: syncProperty_result_cases[of rt p db])
    case (fetch_failed msg)
    with assms(1) show ?thesis by simp
  next
    case (cleaners_failed events' e')
    with assms(2) show ?thesis by simp
  next
    case (succeeded events' db2 n')
    with assms(1) have ev: "events' = events" by simp
    from processCheckouts_created[OF succeeded(3)] obtain created where
      new: "subseq created (upcomingCheckouts rt events)"
        "cleaning_jobs db2 =
           cleaning_jobs db @
           map (jobFor (id' p) (assignedCleanerId (propertyCleanersOf db (id' p)))) created"
        "n' = length created"
      unfolding ev by (auto simp: next_outcome_tables)
    from succeeded(4) assms(3) have r: "success r" "error r = None" "jobs_created r = n'"
      and "cleaning_jobs db' = cleaning_jobs db2"
      by (auto simp: update_property_def)
    with new step show ?thesis by auto
  qed
qed

theorem job_failure_isolation_witness:
  "parseICalFromUrl example_runtime (ical_url property_1) =
     Inr [booking_B, blocked_range, booking_A] \<and>
   fst (next_outcome (example_database\<lparr>failures := [None, None, Some ''duplicate key value'']\<rparr>))
     = None \<and>
   success (fst (syncProperty example_runtime property_1
      (example_database\<lparr>failures := [None, None, Some ''duplicate key value'']\<rparr>))) \<and>
   jobs_created (fst (syncProperty example_runtime property_1
      (example_database\<lparr>failures := [None, None, Some ''duplicate key value'']\<rparr>))) = 1 \<and>
   map checkout_date (cleaning_jobs (snd (syncProperty example_runtime property_1
      (example_database\<lparr>failures := [None, None, Some ''duplicate key value'']\<rparr>)))) =
     [''2024-01-15''] \<and>
   \<not> has_job (example_database\<lparr>failures := [None, Some ''duplicate key value'']\<rparr>) ''p1''
         (checkoutKey (checkout_on 1705057200000)) \<and>
   processCheckouts ''p1'' None [checkout_on 1705057200000, checkout_on 1705316400000]
       (example_database\<lparr>failures := [None, Some ''duplicate key value'']\<rparr>, 0) =
     processCheckouts ''p1'' None [checkout_on 1705316400000]
       (example_database\<lparr>failures := []\<rparr>, 0)"
proof -
  let ?db = "example_database\<lparr>failures := [None, None, Some ''duplicate key value'']\<rparr>"
  let ?d = "example_database\<lparr>failures := [None, Some ''duplicate key value'']\<rparr>"
  let ?run = "syncProperty example_runtime property_1 ?db"
  have h1: "parseICalFromUrl example_runtime (ical_url property_1) =
     Inr [booking_B, blocked_range, booking_A]" by (rule example_feed_1)
  have h2: "fst (next_outcome ?db) = None" by (simp add: next_outcome_def)
  have h3: "?run = (fst ?run, snd ?run)" by simp
  have f: "failures ?d = None # Some ''duplicate key value'' # []" by simp
  have nj: "\<not> has_job ?d ''p1'' (checkoutKey (checkout_on 1705057200000))"
    by (simp add: has_job_def example_database_def)
  from job_failure_isolation[OF h1 h2 h3, where d = ?d and e = "''duplicate key value''"
      and fs = "[]" and pid = "''p1''" and c = "checkout_on 1705057200000"
      and cs = "[checkout_on 1705316400000]" and n = 0 and cleaner = None] f nj
  have "success (fst ?run)"
    and "processCheckouts ''p1'' None [checkout_on 1705057200000, checkout_on 1705316400000]
       (?d, 0) =
     processCheckouts ''p1'' None [checkout_on 1705316400000] (?d\<lparr>failures := []\<rparr>, 0)"
    by blast+
  moreover have "jobs_created (fst ?run) = 1"
    "map checkout_date (cleaning_jobs (snd ?run)) = [''2024-01-15'']"
    by (simp_all add: example_sync_1_insert_failed)
  ultimately show ?thesis using h1 h2 nj by simp
qed

section \<open>The orchestrator\<close>

lemma checkoutStep_properties_update:
  "checkoutStep pid cleaner c (db\<lparr>properties := ps\<rparr>, n) =
     (case checkoutStep pid cleaner c (db, n) of (d, m) \<Rightarrow> (d\<lparr>properties := ps\<rparr>, m))"
  by (auto simp: checkoutStep_def has_job_def split: list.splits option.splits)

lemma processCheckouts_properties_update:
  "processCheckouts pid cleaner cs (db\<lparr>properties := ps\<rparr>, n) =
     (case processCheckouts pid cleaner cs (db, n) of (d, m) \<Rightarrow> (d\<lparr>properties := ps\<rparr>, m))"
proof (induction cs arbitrary: db n)
  case Nil
  then show ?case by simp
next
  case (Cons c cs)
  obtain d m where st: "checkoutStep pid cleaner c (db, n) = (d, m)"
    by (cases "checkoutStep pid cleaner c (db, n)")
  then show ?case
    by (simp add: processCheckouts_step checkoutStep_properties_update Cons.IH)
qed

lemma next_outcome_properties_update:
  "next_outcome (db\<lparr>properties := ps\<rparr>) =
     (fst (next_outcome db), (snd (next_outcome db))\<lparr>properties := ps\<rparr>)"
  by (simp add: next_outcome_def split: list.splits)

lemma sync_failed_properties_update:
  "sync_failed p msg (db\<lparr>properties := ps\<rparr>) =
     (fst (sync_failed p msg db),
      (snd (sync_failed p msg db))
        \<lparr>properties := map (markProperty rt p (fst (sync_failed p msg db))) ps\<rparr>)"
  by (simp add: sync_failed_def update_property_def markProperty_def Let_def)

lemma syncProperty_properties_update:
  "syncProperty rt p (db\<lparr>properties := ps\<rparr>) =
     (fst (syncProperty rt p db),
      (snd (syncProperty rt p db))
        \<lparr>properties := map (markProperty rt p (fst (syncProperty rt p db))) ps\<rparr>)"
proof (cases rule: syncProperty_result_cases[of rt p db])
  case (fetch_failed msg)
  then show ?thesis
    by (simp add: syncProperty_fetch_failed sync_failed_properties_update[where rt = rt])
next
  case (cleaners_failed events e)
  have "fst (next_outcome (db\<lparr>properties := ps\<rparr>)) = Some e"
    using cleaners_failed(2) by (simp add: next_outcome_properties_update)
  from syncProperty_cleaners_failed[OF cleaners_failed(1) this] cleaners_failed(3)
  show ?thesis
    by (simp add: next_outcome_properties_update
        sync_failed_properties_update[where rt = rt])
next
  case (succeeded events db2 n)
  have ok: "fst (next_outcome (db\<lparr>properties := ps\<rparr>)) = None"
    using succeeded(2) by (simp add: next_outcome_properties_update)
  have run: "processCheckouts (id' p)
           (assignedCleanerId (sort_key (\<lambda>pc. \<not> is_primary pc)
                  (filter (\<lambda>pc. pc_property_id pc = id' p)
                     (property_cleaners (db\<lparr>properties := ps\<rparr>)))))
           (upcomingCheckouts rt events) (snd (next_outcome (db\<lparr>properties := ps\<rparr>)), 0) =
         (db2\<lparr>properties := ps\<rparr>, n)"
    using succeeded(3)
    by (simp add: next_outcome_properties_update processCheckouts_properties_update
        propertyCleanersOf_def)
  from syncProperty_succeeded[OF succeeded(1) ok run] succeeded(4)
  show ?thesis
    by (simp add: update_property_def markProperty_def)
qed

lemma syncEach_properties_update:
  "\<exists>ps'. syncEach rt qs (db\<lparr>properties := ps\<rparr>) =
     (fst (syncEach rt qs db), (snd (syncEach rt qs db))\<lparr>properties := ps'\<rparr>)"
proof (induction qs arbitrary: db ps)
  case Nil
  show ?case by (intro exI[of _ ps]) simp
next
  case (Cons q qs)
  obtain r d where one: "syncProperty rt q db = (r, d)" by (cases "syncProperty rt q db")
  let ?ps1 = "map (markProperty rt q r) ps"
  have one': "syncProperty rt q (db\<lparr>properties := ps\<rparr>) = (r, d\<lparr>properties := ?ps1\<rparr>)"
    using one by (simp add: syncProperty_properties_update)
  from Cons.IH[where db = d and ps = ?ps1] obtain ps' where
    rest: "syncEach rt qs (d\<lparr>properties := ?ps1\<rparr>) =
      (fst (syncEach rt qs d), (snd (syncEach rt qs d))\<lparr>properties := ps'\<rparr>)" by blast
  show ?case
    by (intro exI[of _ ps']) (simp add: one one' rest split: prod.splits)
qed

lemma syncEach_append:
  "syncEach rt (xs @ ys) db =
     (fst (syncEach rt xs db) @ fst (syncEach rt ys (snd (syncEach rt xs db))),
      snd (syncEach rt ys (snd (syncEach rt xs db))))"
  by (induction xs arbitrary: db) (simp_all split: prod.splits)

lemma length_syncEach: "length (fst (syncEach rt ps db)) = length ps"
proof (induction ps arbitrary: db)
  case Nil
  show ?case by simp
next
  case (Cons q qs)
  obtain r d where one: "syncProperty rt q db = (r, d)" by (cases "syncProperty rt q db")
  obtain rs d2 where rest: "syncEach rt qs d = (rs, d2)" by (cases "syncEach rt qs d")
  with Cons.IH[of d] have "length rs = length qs" by simp
  with one rest show ?case by simp
qed

lemma sync_failed_database:
  "snd (sync_failed p msg db) =
     db\<lparr>properties := properties (snd (sync_failed p msg db))\<rparr>"
  by (simp add: sync_failed_def update_property_def Let_def)

lemma foldl_jobs_created:
  "foldl (\<lambda>sum r. sum + jobs_created r) a rs = a + sum_list (map jobs_created rs)"
  by (induction rs arbitrary: a) simp_all

lemma serve_completed:
  assumes "select_active_properties db0 = (Inr props, db)" and "props \<noteq> []"
  shows "fst (serve rt db0) =
     jsonResponse
       \<lparr>message = ''Calendar sync completed'',
        synced = length (filter (\<lambda>r. success r) (fst (syncEach rt props db))),
        errors = length (filter (\<lambda>r. \<not> success r) (fst (syncEach rt props db))),
        total_jobs_created = sum_list (map jobs_created (fst (syncEach rt props db))),
        details = Some (fst (syncEach rt props db))\<rparr>"
  using assms by (simp add: serve_def foldl_jobs_created split: prod.splits)

text \<open>
  The fetch and the parse fail in four ways: the request is rejected, the status is not
  a success, the body is empty or blank, the calendar text cannot be parsed.
\<close>

lemma parseICalFromUrl_failure_iff:
  "parseICalFromUrl rt url = Inl msg \<longleftrightarrow>
     (case fetch rt (webcal_to_https url) of
        Rejected m \<Rightarrow> msg = m
      | Response st txt icalData \<Rightarrow>
          (\<not> response_ok st \<and> msg = ''Failed to fetch iCal: '' @ digits st @ '' '' @ txt) \<or>
          (response_ok st \<and> trim icalData = [] \<and> msg = ''iCal data is empty'') \<or>
          (response_ok st \<and> trim icalData \<noteq> [] \<and> ICAL_parse rt icalData = None \<and>
           msg = ''Failed to parse iCal data''))"
proof -
  have blank: "trim [] = []" by (simp add: trim_def)
  show ?thesis
    by (auto simp: parseICalFromUrl_def parseICalData_def Let_def blank
        split: fetch_outcome.splits option.splits)
qed

text \<open>
  Claim C7 (a property that fails). Let the fetch or the parse of property \<open>p\<close> fail with
  message \<open>msg\<close>. In a run over \<open>ps1\<close>, \<open>p\<close>, \<open>ps2\<close> the result of \<open>p\<close> is a failure
  with that message and no job; the other properties get the results they get in a run
  without \<open>p\<close>, and the job table ends the same. The handler answers with the summary:
  one detail for each property, \<open>p\<close> counted among the errors.
\<close>

theorem property_failure_isolation:
  assumes "parseICalFromUrl rt (ical_url p) = Inl msg"
  shows "\<exists>rs1 rs2 r.
        r = \<lparr>property_id = id' p, property_name = name p, success = False,
             jobs_created = 0,
             error = Some (or_default (Some msg) ''Unknown error'')\<rparr> \<and>
        fst (syncEach rt (ps1 @ ps2) db) = rs1 @ rs2 \<and>
        length rs1 = length ps1 \<and> length rs2 = length ps2 \<and>
        fst (syncEach rt (ps1 @ p # ps2) db) = rs1 @ r # rs2 \<and>
        cleaning_jobs (snd (syncEach rt (ps1 @ p # ps2) db)) =
          cleaning_jobs (snd (syncEach rt (ps1 @ ps2) db)) \<and>
        (select_active_properties db0 = (Inr (ps1 @ p # ps2), db) \<longrightarrow>
           fst (serve rt db0) =
             jsonResponse
               \<lparr>message = ''Calendar sync completed'',
                synced = length (filter (\<lambda>r. success r) (rs1 @ rs2)),
                errors = Suc (length (filter (\<lambda>r. \<not> success r) (rs1 @ rs2))),
                total_jobs_created = sum_list (map jobs_created (rs1 @ rs2)),
                details = Some (rs1 @ r # rs2)\<rparr>)"
proof -
  let ?d1 = "snd (syncEach rt ps1 db)"
  let ?rs1 = "fst (syncEach rt ps1 db)" and ?rs2 = "fst (syncEach rt ps2 ?d1)"
  let ?r = "\<lparr>property_id = id' p, property_name = name p, success = False,
                  jobs_created = 0,
                  error = Some (or_default (Some msg) ''Unknown error'')\<rparr>"
  have one: "syncProperty rt p ?d1 = sync_failed p msg ?d1"
    using assms by (rule syncProperty_fetch_failed)
  have r: "fst (sync_failed p msg ?d1) = ?r"
    by (simp add: sync_failed_def Let_def)
  obtain ps' where d: "snd (sync_failed p msg ?d1) = ?d1\<lparr>properties := ps'\<rparr>"
    using sync_failed_database by blast
  from syncEach_properties_update[where rt = rt and qs = ps2 and db = ?d1 and ps = ps']
  obtain ps'' where
    rest: "syncEach rt ps2 (?d1\<lparr>properties := ps'\<rparr>) =
      (?rs2, (snd (syncEach rt ps2 ?d1))\<lparr>properties := ps''\<rparr>)" by blast
  have with_p: "syncEach rt (p # ps2) ?d1 =
      (?r # ?rs2, (snd (syncEach rt ps2 ?d1))\<lparr>properties := ps''\<rparr>)"
    using one r d rest by (simp split: prod.splits) (metis fst_conv snd_conv)
  have e1: "syncEach rt (ps1 @ p # ps2) db =
      (?rs1 @ ?r # ?rs2, (snd (syncEach rt ps2 ?d1))\<lparr>properties := ps''\<rparr>)"
    unfolding syncEach_append[of rt ps1 "p # ps2"] with_p by simp
  have e2: "syncEach rt (ps1 @ ps2) db = (?rs1 @ ?rs2, snd (syncEach rt ps2 ?d1))"
    by (rule syncEach_append)
  have results: "fst (syncEach rt (ps1 @ ps2) db) = ?rs1 @ ?rs2"
    unfolding e2 by simp
  have results_p: "fst (syncEach rt (ps1 @ p # ps2) db) = ?rs1 @ ?r # ?rs2"
    unfolding e1 by simp
  have jobs: "cleaning_jobs (snd (syncEach rt (ps1 @ p # ps2) db)) =
          cleaning_jobs (snd (syncEach rt (ps1 @ ps2) db))"
    unfolding e1 e2 by simp
  have lens: "length ?rs1 = length ps1" "length ?rs2 = length ps2"
    by (simp_all add: length_syncEach)
  have answer: "fst (serve rt db0) =
             jsonResponse
               \<lparr>message = ''Calendar sync completed'',
                synced = length (filter (\<lambda>r. success r) (?rs1 @ ?rs2)),
                errors = Suc (length (filter (\<lambda>r. \<not> success r) (?rs1 @ ?rs2))),
                total_jobs_created = sum_list (map jobs_created (?rs1 @ ?rs2)),
                details = Some (?rs1 @ ?r # ?rs2)\<rparr>"
    if "select_active_properties db0 = (Inr (ps1 @ p # ps2), db)"
    using serve_completed[OF that, of rt] unfolding results_p by simp
  show ?thesis
    apply (rule exI[of _ ?rs1])
    apply (rule exI[of _ ?rs2])
    apply (rule exI[of _ ?r])
    using results results_p jobs lens answer by blast
qed

theorem property_failure_isolation_witness:
  "parseICalFromUrl example_runtime (ical_url property_2) =
     Inl ''Failed to fetch iCal: 500 Internal Server Error'' \<and>
   fst (syncEach example_runtime [property_1, property_2, property_3] example_database) ! 1 =
     \<lparr>property_id = ''p2'', property_name = ''City Loft'', success = False,
      jobs_created = 0, error = Some ''Failed to fetch iCal: 500 Internal Server Error''\<rparr> \<and>
   cleaning_jobs (snd (syncEach example_runtime [property_1, property_2, property_3]
                          example_database)) =
     cleaning_jobs (snd (syncEach example_runtime [property_1, property_3] example_database)) \<and>
   fst (serve example_runtime example_database) =
     jsonResponse
       \<lparr>message = ''Calendar sync completed'', synced = 2, errors = 1,
        total_jobs_created = 3,
        details = Some
          [\<lparr>property_id = ''p1'', property_name = ''Beach House'', success = True,
            jobs_created = 2, error = None\<rparr>,
           \<lparr>property_id = ''p2'', property_name = ''City Loft'', success = False,
            jobs_created = 0,
            error = Some ''Failed to fetch iCal: 500 Internal Server Error''\<rparr>,
           \<lparr>property_id = ''p3'', property_name = ''Cabin'', success = True,
            jobs_created = 1, error = None\<rparr>]\<rparr> \<and>
   map (\<lambda>j. (job_property_id j, checkout_date j))
     (cleaning_jobs (snd (serve example_runtime example_database))) =
     [(''p1'', ''2024-01-12''), (''p1'', ''2024-01-15''), (''p3'', ''2024-01-20'')]"
proof -
  have h: "parseICalFromUrl example_runtime (ical_url property_2) =
     Inl ''Failed to fetch iCal: 500 Internal Server Error''" by (rule example_feed_2)
  from property_failure_isolation[OF h, of "[property_1]" "[property_3]" example_database
      example_database]
  obtain rs1 rs2 where
    "length rs1 = 1"
    "fst (syncEach example_runtime [property_1, property_2, property_3] example_database) =
       rs1 @ \<lparr>property_id = id' property_2, property_name = name property_2, success = False,
             jobs_created = 0,
             error = Some (or_default (Some ''Failed to fetch iCal: 500 Internal Server Error'')
                             ''Unknown error'')\<rparr> # rs2"
    and jobs: "cleaning_jobs (snd (syncEach example_runtime [property_1, property_2, property_3]
                          example_database)) =
     cleaning_jobs (snd (syncEach example_runtime [property_1, property_3] example_database))"
    by auto
  then have "fst (syncEach example_runtime [property_1, property_2, property_3]
       example_database) ! 1 =
     \<lparr>property_id = ''p2'', property_name = ''City Loft'', success = False,
      jobs_created = 0, error = Some ''Failed to fetch iCal: 500 Internal Server Error''\<rparr>"
    by (simp add: nth_append property_2_def or_default_def)
  with h jobs example_serve show ?thesis by simp
qed

end
